theory Spec2Isabelle
  imports Complex_Main "HOL-Library.Multiset"
begin

section \<open>Numbers, errors and arrays\<close>

text \<open>
  The notebook \<^verbatim>\<open>neural_network_implementation.ipynb\<close> computes with numpy arrays of
  64-bit floats. The embedding takes every float as a \<^typ>\<open>real\<close>: sums, products,
  \<open>exp\<close>, \<open>ln\<close> and \<open>sqrt\<close> are exact, so rounding, overflow, \<open>inf\<close> and \<open>nan\<close> are outside
  the model. Where numpy would produce \<open>inf\<close> or \<open>nan\<close> without raising (an array divided
  by zero, the logarithm of zero, the square root of a negative number) the model holds
  whatever value the HOL operation has there.

  What Python and numpy raise is a value of \<open>error\<close>; a function that can raise returns
  \<open>error + 'a\<close>, with \<open>Inl\<close> for the exception.
\<close>

datatype error = KeyError | ValueError | ZeroDivisionError | IndexError

definition and_then :: "error + 'a \<Rightarrow> ('a \<Rightarrow> error + 'b) \<Rightarrow> error + 'b" where
  "and_then r f = (case r of Inl e \<Rightarrow> Inl e | Inr x \<Rightarrow> f x)"

text \<open>A \<^verbatim>\<open>for\<close> loop over a finite range; the first exception ends it.\<close>

fun for_loop :: "'i list \<Rightarrow> ('i \<Rightarrow> 's \<Rightarrow> error + 's) \<Rightarrow> 's \<Rightarrow> error + 's" where
  "for_loop [] body s = Inr s"
| "for_loop (i # is) body s =
     (case body i s of Inl e \<Rightarrow> Inl e | Inr s' \<Rightarrow> for_loop is body s')"

text \<open>
  A two-dimensional numpy array: its rows, and its number of columns, which numpy keeps
  also when there are no rows. \<open>shape0\<close> and \<open>shape1\<close> are \<^verbatim>\<open>a.shape[0]\<close> and
  \<^verbatim>\<open>a.shape[1]\<close>.
\<close>

datatype ndarray = Array (shape1: nat) (rows: "real list list")

definition shape0 :: "ndarray \<Rightarrow> nat" where
  "shape0 a = length (rows a)"

definition wf_array :: "ndarray \<Rightarrow> bool" where
  "wf_array a = list_all (\<lambda>row. length row = shape1 a) (rows a)"

definition entry :: "ndarray \<Rightarrow> nat \<Rightarrow> nat \<Rightarrow> real" where
  "entry a i j = rows a ! i ! j"

definition tabulate :: "nat \<Rightarrow> nat \<Rightarrow> (nat \<Rightarrow> nat \<Rightarrow> real) \<Rightarrow> ndarray" where
  "tabulate r c f = Array c (map (\<lambda>i. map (\<lambda>j. f i j) [0..<c]) [0..<r])"

definition map_array :: "(real \<Rightarrow> real) \<Rightarrow> ndarray \<Rightarrow> ndarray" where
  "map_array f a = Array (shape1 a) (map (map f) (rows a))"

definition entries :: "ndarray \<Rightarrow> real set" where
  "entries a = (\<Union>row \<in> set (rows a). set row)"

text \<open>\<^verbatim>\<open>np.zeros((r, c))\<close>.\<close>

definition np_zeros :: "nat \<Rightarrow> nat \<Rightarrow> ndarray" where
  "np_zeros r c = tabulate r c (\<lambda>i j. 0)"

text \<open>
  numpy's broadcasting of two 2-d arrays: along each axis the lengths are equal or one of
  them is 1, and the axis of length 1 is repeated; anything else raises ValueError.
\<close>

definition bdim :: "nat \<Rightarrow> nat \<Rightarrow> nat option" where
  "bdim m n = (if m = n then Some m else if m = 1 then Some n else if n = 1 then Some m else None)"

definition bentry :: "ndarray \<Rightarrow> nat \<Rightarrow> nat \<Rightarrow> real" where
  "bentry a i j = entry a (if shape0 a = 1 then 0 else i) (if shape1 a = 1 then 0 else j)"

definition broadcast2 :: "(real \<Rightarrow> real \<Rightarrow> real) \<Rightarrow> ndarray \<Rightarrow> ndarray \<Rightarrow> error + ndarray" where
  "broadcast2 f a b =
     (case (bdim (shape0 a) (shape0 b), bdim (shape1 a) (shape1 b)) of
        (Some r, Some c) \<Rightarrow> Inr (tabulate r c (\<lambda>i j. f (bentry a i j) (bentry b i j)))
      | _ \<Rightarrow> Inl ValueError)"

definition np_add :: "ndarray \<Rightarrow> ndarray \<Rightarrow> error + ndarray" where
  "np_add a b = broadcast2 (\<lambda>x y. x + y) a b"

definition np_subtract :: "ndarray \<Rightarrow> ndarray \<Rightarrow> error + ndarray" where
  "np_subtract a b = broadcast2 (\<lambda>x y. x - y) a b"

definition np_multiply :: "ndarray \<Rightarrow> ndarray \<Rightarrow> error + ndarray" where
  "np_multiply a b = broadcast2 (\<lambda>x y. x * y) a b"

definition np_divide :: "ndarray \<Rightarrow> ndarray \<Rightarrow> error + ndarray" where
  "np_divide a b = broadcast2 (\<lambda>x y. x / y) a b"

text \<open>
  \<^verbatim>\<open>a -= b\<close> on arrays writes into \<open>a\<close>: the broadcast result must have the shape of
  \<open>a\<close>, otherwise numpy raises ValueError.
\<close>

definition isub :: "ndarray \<Rightarrow> ndarray \<Rightarrow> error + ndarray" where
  "isub a b =
     and_then (np_subtract a b) (\<lambda>r.
       if shape0 r = shape0 a \<and> shape1 r = shape1 a then Inr r else Inl ValueError)"

text \<open>\<^verbatim>\<open>np.dot(a, b)\<close> of 2-d arrays, \<^verbatim>\<open>a.T\<close>, \<^verbatim>\<open>np.sum(a)\<close> and
  \<^verbatim>\<open>np.sum(a, axis=1, keepdims=True)\<close>.\<close>

definition np_dot :: "ndarray \<Rightarrow> ndarray \<Rightarrow> error + ndarray" where
  "np_dot a b =
     (if shape1 a \<noteq> shape0 b then Inl ValueError
      else Inr (tabulate (shape0 a) (shape1 b)
                  (\<lambda>i j. \<Sum>k \<leftarrow> [0..<shape1 a]. entry a i k * entry b k j)))"

definition transpose_array :: "ndarray \<Rightarrow> ndarray" where
  "transpose_array a = tabulate (shape1 a) (shape0 a) (\<lambda>i j. entry a j i)"

definition np_sum :: "ndarray \<Rightarrow> real" where
  "np_sum a = sum_list (map sum_list (rows a))"

definition np_sum_axis1 :: "ndarray \<Rightarrow> ndarray" where
  "np_sum_axis1 a = Array 1 (map (\<lambda>row. [sum_list row]) (rows a))"

text \<open>
  The notebook's dictionaries are keyed by strings built from a letter and a layer
  number, \<^verbatim>\<open>'W'+str(i)\<close>; a key is modelled by a constructor applied to the number.
  \<open>len\<close> is Python's \<^verbatim>\<open>len\<close> of a dictionary, \<open>lookup\<close> its indexing, which raises
  KeyError on a missing key.
\<close>

datatype key = K_W nat | K_b nat | K_A nat | K_dW nat | K_db nat | K_dZ nat

type_synonym store = "key \<rightharpoonup> ndarray"

definition len :: "store \<Rightarrow> nat" where
  "len d = card (dom d)"

definition lookup :: "store \<Rightarrow> key \<Rightarrow> error + ndarray" where
  "lookup d k = (case d k of None \<Rightarrow> Inl KeyError | Some a \<Rightarrow> Inr a)"

section \<open>The network\<close>

text \<open>\<^verbatim>\<open>sigmoid(z) = 1/(1+np.exp(-z))\<close> and
  \<^verbatim>\<open>sigmoid_derivative(a) = np.multiply(a, (1-a))\<close>, element by element.\<close>

definition sigmoid :: "ndarray \<Rightarrow> ndarray" where
  "sigmoid z = map_array (\<lambda>x. 1 / (1 + exp (- x))) z"

definition sigmoid_derivative :: "ndarray \<Rightarrow> error + ndarray" where
  "sigmoid_derivative a = np_multiply a (map_array (\<lambda>x. 1 - x) a)"

text \<open>
  \<^verbatim>\<open>forward_propagation(X, parameters)\<close>: the loop runs over the layers
  \<open>1 .. len(parameters)//2\<close>, stores every activation and returns the cache together
  with the last activation.
\<close>

definition forward_propagation :: "ndarray \<Rightarrow> store \<Rightarrow> error + (store \<times> ndarray)" where
  "forward_propagation X parameters =
     (let limit = 1 + len parameters div 2 in
      and_then
        (for_loop [1..<limit]
           (\<lambda>idx activations.
              and_then (lookup parameters (K_W idx)) (\<lambda>W.
              and_then (lookup activations (K_A (idx - 1))) (\<lambda>A_prev.
              and_then (np_dot W A_prev) (\<lambda>WA.
              and_then (lookup parameters (K_b idx)) (\<lambda>b.
              and_then (np_add WA b) (\<lambda>Z.
              Inr (activations(K_A idx \<mapsto> sigmoid Z))))))))
           (Map.empty(K_A 0 \<mapsto> X)))
        (\<lambda>activations.
           and_then (lookup activations (K_A (limit - 1))) (\<lambda>prediction.
           Inr (activations, prediction))))"

text \<open>
  \<^verbatim>\<open>compute_cost(act, y, parameters, lambd, regularization)\<close>. The divisions by \<open>m\<close> and
  by \<open>2*m\<close> are divisions of Python numbers: they raise ZeroDivisionError when the batch
  has no column.
\<close>

definition compute_cost :: "ndarray \<Rightarrow> ndarray \<Rightarrow> store \<Rightarrow> real \<Rightarrow> string \<Rightarrow> error + real" where
  "compute_cost act y parameters lambd regularization =
     (let m = shape1 y in
      and_then (np_multiply (map_array ln act) y) (\<lambda>lp1.
      and_then (np_multiply (map_array (\<lambda>x. ln (1 - x)) act) (map_array (\<lambda>x. 1 - x) y)) (\<lambda>lp0.
      and_then (np_add lp1 lp0) (\<lambda>logprobs.
      and_then
        (if regularization = ''l2'' then
           and_then
             (for_loop [1..<1 + len parameters div 2]
                (\<lambda>i reg_term.
                   and_then (lookup parameters (K_W i)) (\<lambda>W.
                   Inr (reg_term + np_sum (map_array (\<lambda>x. x\<^sup>2) W))))
                0)
             (\<lambda>reg_term.
                if m = 0 then Inl ZeroDivisionError
                else Inr ((lambd / (2 * real m)) * reg_term))
         else Inr 0)
        (\<lambda>reg_term.
           if m = 0 then Inl ZeroDivisionError
           else Inr ((- 1 / real m) * np_sum logprobs + reg_term))))))"

text \<open>
  \<^verbatim>\<open>backward_propagation(y, parameters, activations, lambd, regularization)\<close>. The
  source reads \<^verbatim>\<open>m = y.shape[0]\<close>, the number of rows of the labels.
\<close>

definition backward_propagation ::
  "ndarray \<Rightarrow> store \<Rightarrow> store \<Rightarrow> real \<Rightarrow> string \<Rightarrow> error + store" where
  "backward_propagation y parameters activations lambd regularization =
     (let m = shape0 y;
          last = len parameters div 2 in
      and_then (lookup activations (K_A last)) (\<lambda>A_last.
      and_then (np_subtract A_last y) (\<lambda>dZ_last.
      and_then
        (for_loop (rev [1..<last])
           (\<lambda>l dz_dict.
              and_then (lookup activations (K_A l)) (\<lambda>A_l.
              and_then (sigmoid_derivative A_l) (\<lambda>g.
              and_then (lookup parameters (K_W (l + 1))) (\<lambda>W_next.
              and_then (lookup dz_dict (K_dZ (l + 1))) (\<lambda>dZ_next.
              and_then (np_dot (transpose_array W_next) dZ_next) (\<lambda>d.
              and_then (np_multiply g d) (\<lambda>dZ_l.
              Inr (dz_dict(K_dZ l \<mapsto> dZ_l)))))))))
           (Map.empty(K_dZ last \<mapsto> dZ_last)))
        (\<lambda>dz_dict.
      and_then
        (for_loop (rev [1..<last + 1])
           (\<lambda>i gradients.
              if m = 0 then Inl ZeroDivisionError
              else
                and_then (lookup dz_dict (K_dZ i)) (\<lambda>dZ_i.
                and_then (lookup activations (K_A (i - 1))) (\<lambda>A_prev.
                and_then (np_dot dZ_i (transpose_array A_prev)) (\<lambda>d.
                Inr (gradients
                      (K_dW i \<mapsto> map_array (\<lambda>x. (1 / real m) * x) d,
                       K_db i \<mapsto> map_array (\<lambda>x. (1 / real m) * x) (np_sum_axis1 dZ_i)))))))
           Map.empty)
        (\<lambda>gradients.
           if regularization = ''l2'' then
             for_loop [1..<1 + len parameters div 2]
               (\<lambda>i gradients.
                  and_then (lookup gradients (K_dW i)) (\<lambda>dW.
                  if m = 0 then Inl ZeroDivisionError
                  else
                    and_then (lookup parameters (K_W i)) (\<lambda>W.
                    and_then (np_add dW (map_array (\<lambda>x. (lambd / real m) * x) W)) (\<lambda>dW'.
                    Inr (gradients(K_dW i \<mapsto> dW'))))))
               gradients
           else Inr gradients)))))"

text \<open>\<^verbatim>\<open>update_parameters(parameters, gradients, learning_rate)\<close>: classical
  gradient descent.\<close>

definition update_parameters :: "store \<Rightarrow> store \<Rightarrow> real \<Rightarrow> error + store" where
  "update_parameters parameters gradients learning_rate =
     for_loop [1..<1 + len parameters div 2]
       (\<lambda>i parameters.
          and_then (lookup parameters (K_W i)) (\<lambda>W.
          and_then (lookup gradients (K_dW i)) (\<lambda>dW.
          and_then (isub W (map_array (\<lambda>x. learning_rate * x) dW)) (\<lambda>W'.
          and_then (lookup parameters (K_b i)) (\<lambda>b.
          and_then (lookup gradients (K_db i)) (\<lambda>db.
          and_then (isub b (map_array (\<lambda>x. learning_rate * x) db)) (\<lambda>b'.
          Inr (parameters(K_W i \<mapsto> W', K_b i \<mapsto> b')))))))))
       parameters"

text \<open>
  Gradient descent with momentum. \<^verbatim>\<open>initialize_momentum_params\<close> allocates one zero
  array per parameter; \<^verbatim>\<open>update_parameters_momentum\<close> changes the dictionary \<open>v\<close> of
  its caller in place, so the model returns it next to the parameters.
\<close>

definition initialize_momentum_params :: "store \<Rightarrow> error + store" where
  "initialize_momentum_params parameters =
     for_loop [1..<1 + len parameters div 2]
       (\<lambda>i v.
          and_then (lookup parameters (K_W i)) (\<lambda>W.
          and_then (lookup parameters (K_b i)) (\<lambda>b.
          Inr (v(K_dW i \<mapsto> np_zeros (shape0 W) (shape1 W),
                 K_db i \<mapsto> np_zeros (shape0 b) (shape1 b))))))
       Map.empty"

definition update_parameters_momentum ::
  "store \<Rightarrow> store \<Rightarrow> real \<Rightarrow> store \<Rightarrow> real \<Rightarrow> error + (store \<times> store)" where
  "update_parameters_momentum parameters gradients learning_rate v beta =
     for_loop [1..<1 + len parameters div 2]
       (\<lambda>i (parameters, v).
          and_then (lookup v (K_dW i)) (\<lambda>v_dW.
          and_then (lookup gradients (K_dW i)) (\<lambda>dW.
          and_then (np_add (map_array (\<lambda>x. beta * x) v_dW) (map_array (\<lambda>x. (1 - beta) * x) dW)) (\<lambda>v_dW'.
          and_then (lookup v (K_db i)) (\<lambda>v_db.
          and_then (lookup gradients (K_db i)) (\<lambda>db.
          and_then (np_add (map_array (\<lambda>x. beta * x) v_db) (map_array (\<lambda>x. (1 - beta) * x) db)) (\<lambda>v_db'.
          and_then (lookup parameters (K_W i)) (\<lambda>W.
          and_then (isub W (map_array (\<lambda>x. learning_rate * x) v_dW')) (\<lambda>W'.
          and_then (lookup parameters (K_b i)) (\<lambda>b.
          and_then (isub b (map_array (\<lambda>x. learning_rate * x) v_db')) (\<lambda>b'.
          Inr (parameters(K_W i \<mapsto> W', K_b i \<mapsto> b'),
               v(K_dW i \<mapsto> v_dW', K_db i \<mapsto> v_db')))))))))))))
       (parameters, v)"

text \<open>
  RMSProp. The loop body of \<^verbatim>\<open>update_parameters_rmsprop\<close> first renews the
  accumulators \<open>s\<close>, then fills the local dictionary \<open>s_corrected\<close>, then subtracts
  \<^verbatim>\<open>learning_rate*1/(epsilon + np.sqrt(s_corrected[...]))\<close> from the parameter.
\<close>

definition initialize_rmsprop_params :: "store \<Rightarrow> error + store" where
  "initialize_rmsprop_params parameters =
     for_loop [1..<1 + len parameters div 2]
       (\<lambda>i s.
          and_then (lookup parameters (K_W i)) (\<lambda>W.
          and_then (lookup parameters (K_b i)) (\<lambda>b.
          Inr (s(K_dW i \<mapsto> np_zeros (shape0 W) (shape1 W),
                 K_db i \<mapsto> np_zeros (shape0 b) (shape1 b))))))
       Map.empty"

definition rmsprop_body ::
  "store \<Rightarrow> real \<Rightarrow> nat \<Rightarrow> real \<Rightarrow> real \<Rightarrow> nat \<Rightarrow> store \<times> store \<times> store
     \<Rightarrow> error + (store \<times> store \<times> store)" where
  "rmsprop_body gradients learning_rate t beta epsilon i = (\<lambda>(parameters, s, s_corrected).
     and_then (lookup s (K_dW i)) (\<lambda>s_dW.
     and_then (lookup gradients (K_dW i)) (\<lambda>dW.
     and_then (np_add (map_array (\<lambda>x. beta * x) s_dW) (map_array (\<lambda>x. (1 - beta) * x\<^sup>2) dW)) (\<lambda>s_dW'.
     and_then (lookup s (K_db i)) (\<lambda>s_db.
     and_then (lookup gradients (K_db i)) (\<lambda>db.
     and_then (np_add (map_array (\<lambda>x. beta * x) s_db) (map_array (\<lambda>x. (1 - beta) * x\<^sup>2) db)) (\<lambda>s_db'.
     let s = s(K_dW i \<mapsto> s_dW', K_db i \<mapsto> s_db');
         s_corrected = s_corrected
           (K_dW i \<mapsto> map_array (\<lambda>x. x / (1 - beta ^ t)) s_dW',
            K_db i \<mapsto> map_array (\<lambda>x. x / (1 - beta ^ t)) s_db')
     in
     and_then (lookup parameters (K_W i)) (\<lambda>W.
     and_then (lookup s_corrected (K_dW i)) (\<lambda>sc_dW.
     and_then (isub W (map_array (\<lambda>x. learning_rate * 1 / (epsilon + sqrt x)) sc_dW)) (\<lambda>W'.
     and_then (lookup parameters (K_b i)) (\<lambda>b.
     and_then (lookup s_corrected (K_db i)) (\<lambda>sc_db.
     and_then (isub b (map_array (\<lambda>x. learning_rate * 1 / (epsilon + sqrt x)) sc_db)) (\<lambda>b'.
     Inr (parameters(K_W i \<mapsto> W', K_b i \<mapsto> b'), s, s_corrected))))))))))))))"

definition update_parameters_rmsprop ::
  "store \<Rightarrow> store \<Rightarrow> real \<Rightarrow> store \<Rightarrow> nat \<Rightarrow> real \<Rightarrow> real \<Rightarrow> error + (store \<times> store)" where
  "update_parameters_rmsprop parameters gradients learning_rate s t beta epsilon =
     and_then
       (for_loop [1..<1 + len parameters div 2]
          (rmsprop_body gradients learning_rate t beta epsilon)
          (parameters, s, Map.empty))
       (\<lambda>(parameters, s, s_corrected). Inr (parameters, s))"

text \<open>Adam: both accumulators, both corrected by \<open>1 - beta ^ t\<close>.\<close>

definition initialize_adam_params :: "store \<Rightarrow> error + (store \<times> store)" where
  "initialize_adam_params parameters =
     for_loop [1..<1 + len parameters div 2]
       (\<lambda>i (v, s).
          and_then (lookup parameters (K_W i)) (\<lambda>W.
          and_then (lookup parameters (K_b i)) (\<lambda>b.
          Inr (v(K_dW i \<mapsto> np_zeros (shape0 W) (shape1 W),
                 K_db i \<mapsto> np_zeros (shape0 b) (shape1 b)),
               s(K_dW i \<mapsto> np_zeros (shape0 W) (shape1 W),
                 K_db i \<mapsto> np_zeros (shape0 b) (shape1 b))))))
       (Map.empty, Map.empty)"

definition adam_body ::
  "store \<Rightarrow> real \<Rightarrow> nat \<Rightarrow> real \<Rightarrow> real \<Rightarrow> real \<Rightarrow> nat
     \<Rightarrow> store \<times> store \<times> store \<times> store \<times> store
     \<Rightarrow> error + (store \<times> store \<times> store \<times> store \<times> store)" where
  "adam_body gradients learning_rate t beta1 beta2 epsilon i =
   (\<lambda>(parameters, v, s, v_corrected, s_corrected).
     and_then (lookup v (K_dW i)) (\<lambda>v_dW.
     and_then (lookup gradients (K_dW i)) (\<lambda>dW.
     and_then (np_add (map_array (\<lambda>x. beta1 * x) v_dW) (map_array (\<lambda>x. (1 - beta1) * x) dW)) (\<lambda>v_dW'.
     and_then (lookup v (K_db i)) (\<lambda>v_db.
     and_then (lookup gradients (K_db i)) (\<lambda>db.
     and_then (np_add (map_array (\<lambda>x. beta1 * x) v_db) (map_array (\<lambda>x. (1 - beta1) * x) db)) (\<lambda>v_db'.
     and_then (lookup s (K_dW i)) (\<lambda>s_dW.
     and_then (np_add (map_array (\<lambda>x. beta2 * x) s_dW) (map_array (\<lambda>x. (1 - beta2) * x\<^sup>2) dW)) (\<lambda>s_dW'.
     and_then (lookup s (K_db i)) (\<lambda>s_db.
     and_then (np_add (map_array (\<lambda>x. beta2 * x) s_db) (map_array (\<lambda>x. (1 - beta2) * x\<^sup>2) db)) (\<lambda>s_db'.
     let v = v(K_dW i \<mapsto> v_dW', K_db i \<mapsto> v_db');
         s = s(K_dW i \<mapsto> s_dW', K_db i \<mapsto> s_db');
         v_corrected = v_corrected
           (K_dW i \<mapsto> map_array (\<lambda>x. x / (1 - beta1 ^ t)) v_dW',
            K_db i \<mapsto> map_array (\<lambda>x. x / (1 - beta1 ^ t)) v_db');
         s_corrected = s_corrected
           (K_dW i \<mapsto> map_array (\<lambda>x. x / (1 - beta2 ^ t)) s_dW',
            K_db i \<mapsto> map_array (\<lambda>x. x / (1 - beta2 ^ t)) s_db')
     in
     and_then (lookup parameters (K_W i)) (\<lambda>W.
     and_then (lookup v_corrected (K_dW i)) (\<lambda>vc_dW.
     and_then (lookup s_corrected (K_dW i)) (\<lambda>sc_dW.
     and_then (np_divide vc_dW (map_array (\<lambda>x. epsilon + sqrt x) sc_dW)) (\<lambda>q_dW.
     and_then (isub W (map_array (\<lambda>x. learning_rate * x) q_dW)) (\<lambda>W'.
     and_then (lookup parameters (K_b i)) (\<lambda>b.
     and_then (lookup v_corrected (K_db i)) (\<lambda>vc_db.
     and_then (lookup s_corrected (K_db i)) (\<lambda>sc_db.
     and_then (np_divide vc_db (map_array (\<lambda>x. epsilon + sqrt x) sc_db)) (\<lambda>q_db.
     and_then (isub b (map_array (\<lambda>x. learning_rate * x) q_db)) (\<lambda>b'.
     Inr (parameters(K_W i \<mapsto> W', K_b i \<mapsto> b'), v, s, v_corrected, s_corrected))))))))))))))))))))))"

definition update_parameters_adam ::
  "store \<Rightarrow> store \<Rightarrow> real \<Rightarrow> store \<Rightarrow> store \<Rightarrow> nat \<Rightarrow> real \<Rightarrow> real \<Rightarrow> real
     \<Rightarrow> error + (store \<times> store \<times> store)" where
  "update_parameters_adam parameters gradients learning_rate v s t beta1 beta2 epsilon =
     and_then
       (for_loop [1..<1 + len parameters div 2]
          (adam_body gradients learning_rate t beta1 beta2 epsilon)
          (parameters, v, s, Map.empty, Map.empty))
       (\<lambda>(parameters, v, s, v_corrected, s_corrected). Inr (parameters, v, s))"

text \<open>
  \<^verbatim>\<open>predict(parameters, X)\<close>: an array of zeros of the shape of the prediction, set to
  1 where the prediction is greater than 0.5.
\<close>

definition predict :: "store \<Rightarrow> ndarray \<Rightarrow> error + ndarray" where
  "predict parameters X =
     and_then (forward_propagation X parameters) (\<lambda>(activations, op).
     Inr (map_array (\<lambda>a. if a > 0.5 then 1 else 0) op))"

section \<open>Initialisation\<close>

text \<open>
  \<^verbatim>\<open>initialize_parameters(n_input_nodes, n_output_nodes)\<close>. The samples that
  \<^verbatim>\<open>np.random.randn\<close> draws are the argument \<open>randn\<close>, indexed by row and column.
  \<^verbatim>\<open>randn\<close> raises ValueError on a negative dimension; \<^verbatim>\<open>1/n_input_nodes\<close> is a
  division of Python integers and raises ZeroDivisionError at zero.
\<close>

definition initialize_parameters ::
  "(nat \<Rightarrow> nat \<Rightarrow> real) \<Rightarrow> int \<Rightarrow> int \<Rightarrow> error + (ndarray \<times> ndarray)" where
  "initialize_parameters randn n_input_nodes n_output_nodes =
     (if n_output_nodes < 0 \<or> n_input_nodes < 0 then Inl ValueError
      else if n_input_nodes = 0 then Inl ZeroDivisionError
      else
        let W = map_array (\<lambda>x. x * sqrt (1 / real_of_int n_input_nodes))
                  (tabulate (nat n_output_nodes) (nat n_input_nodes) randn);
            b = np_zeros (nat n_output_nodes) 1
        in Inr (W, b))"

text \<open>\<^verbatim>\<open>create_layers(layers_list)\<close>; \<open>randn idx\<close> are the samples of the call for
  layer \<open>idx\<close>.\<close>

definition create_layers :: "(nat \<Rightarrow> nat \<Rightarrow> nat \<Rightarrow> real) \<Rightarrow> int list \<Rightarrow> error + store" where
  "create_layers randn layers_list =
     for_loop [1..<length layers_list]
       (\<lambda>idx parameters.
          and_then (initialize_parameters (randn idx) (layers_list ! (idx - 1)) (layers_list ! idx))
            (\<lambda>(W, b). Inr (parameters(K_W idx \<mapsto> W, K_b idx \<mapsto> b))))
       Map.empty"

section \<open>Mini-batches\<close>

text \<open>
  Column selection \<^verbatim>\<open>a[:, idxs]\<close> (IndexError on an index beyond the last column),
  \<^verbatim>\<open>a.reshape((1, m))\<close> (ValueError unless the array has \<open>m\<close> entries) and the column
  slice \<^verbatim>\<open>a[:, start:stop]\<close>, whose bounds Python clips to the array: a negative bound
  counts from the end.
\<close>

definition index_columns :: "ndarray \<Rightarrow> nat list \<Rightarrow> error + ndarray" where
  "index_columns a idxs =
     (if list_ex (\<lambda>p. shape1 a \<le> p) idxs then Inl IndexError
      else Inr (tabulate (shape0 a) (length idxs) (\<lambda>i j. entry a i (idxs ! j))))"

definition reshape_row :: "ndarray \<Rightarrow> nat \<Rightarrow> error + ndarray" where
  "reshape_row a m =
     (if shape0 a * shape1 a \<noteq> m then Inl ValueError else Inr (Array m [concat (rows a)]))"

definition slice_index :: "int \<Rightarrow> nat \<Rightarrow> nat" where
  "slice_index i n = (if i < 0 then nat (max 0 (i + int n)) else min (nat i) n)"

definition slice_columns :: "ndarray \<Rightarrow> int \<Rightarrow> int \<Rightarrow> ndarray" where
  "slice_columns a start stop =
     (let lo = slice_index start (shape1 a);
          hi = slice_index stop (shape1 a)
      in tabulate (shape0 a) (hi - lo) (\<lambda>i j. entry a i (lo + j)))"

text \<open>
  \<^verbatim>\<open>generate_random_mini_batches(X, Y, mini_batch_size)\<close>. The permutation that
  \<^verbatim>\<open>np.random.permutation(m)\<close> returns is the argument \<open>permutation\<close>.
  \<^verbatim>\<open>math.floor(m/mini_batch_size)\<close> is the floor of a float quotient, which for array
  sizes is the integer quotient \<open>div\<close>; it raises ZeroDivisionError at zero.
\<close>

definition generate_random_mini_batches ::
  "nat list \<Rightarrow> ndarray \<Rightarrow> ndarray \<Rightarrow> int \<Rightarrow> error + (ndarray \<times> ndarray) list" where
  "generate_random_mini_batches permutation X Y mini_batch_size =
     (let m = shape1 X in
      and_then (index_columns X permutation) (\<lambda>shuffled_X.
      and_then (index_columns Y permutation) (\<lambda>Y_permuted.
      and_then (reshape_row Y_permuted m) (\<lambda>shuffled_Y.
      if mini_batch_size = 0 then Inl ZeroDivisionError
      else
        let num_complete_minibatches = 1 + int m div mini_batch_size in
        Inr (map (\<lambda>k. (slice_columns shuffled_X (k * mini_batch_size) ((k + 1) * mini_batch_size),
                        slice_columns shuffled_Y (k * mini_batch_size) ((k + 1) * mini_batch_size)))
               [0..num_complete_minibatches - 1])))))"

section \<open>The training loop\<close>

text \<open>
  \<^verbatim>\<open>train_nn_model\<close> keeps the parameters, the optimizer dictionaries \<open>v\<close> and \<open>s\<close>
  and the running cost in local variables; they are the fields of \<open>train_state\<close>. The
  field \<open>st_trace\<close> is a history of the run, which the notebook does not keep: every
  call of the sampler with its batch size, every call of an update function (for RMSProp
  and Adam with the step argument \<open>t\<close> it received), and every line printed.
\<close>

datatype event =
    Sampler_called int
  | Rmsprop_called nat
  | Adam_called nat
  | Momentum_called
  | Plain_called
  | Printed int real

record train_state =
  st_parameters :: store
  st_v :: store
  st_s :: store
  st_cost :: real
  st_trace :: "event list"

text \<open>The body of the loop over the mini-batches of one epoch.\<close>

definition minibatch_step ::
  "real \<Rightarrow> real \<Rightarrow> string \<Rightarrow> string \<Rightarrow> real \<Rightarrow> real \<Rightarrow> real \<Rightarrow> nat
     \<Rightarrow> ndarray \<times> ndarray \<Rightarrow> train_state \<Rightarrow> error + train_state" where
  "minibatch_step learning_rate lambd regularization optimization beta1 beta2 epsilon t minibatch st =
     (case minibatch of (minibatch_X, minibatch_y) \<Rightarrow>
      and_then (forward_propagation minibatch_X (st_parameters st)) (\<lambda>(activations, prediction).
      and_then (backward_propagation minibatch_y (st_parameters st) activations lambd regularization) (\<lambda>grads.
      and_then (compute_cost prediction minibatch_y (st_parameters st) lambd regularization) (\<lambda>c.
      let st = st\<lparr>st_cost := st_cost st + c\<rparr> in
      if optimization = ''rmsprop'' then
        and_then (update_parameters_rmsprop (st_parameters st) grads learning_rate (st_s st) t beta2 epsilon)
          (\<lambda>(parameters, s).
             Inr (st\<lparr>st_parameters := parameters, st_s := s,
                      st_trace := st_trace st @ [Rmsprop_called t]\<rparr>))
      else if optimization = ''adam'' then
        and_then (update_parameters_adam (st_parameters st) grads learning_rate (st_v st) (st_s st) t
                    beta1 beta2 epsilon)
          (\<lambda>(parameters, v, s).
             Inr (st\<lparr>st_parameters := parameters, st_v := v, st_s := s,
                      st_trace := st_trace st @ [Adam_called t]\<rparr>))
      else if optimization = ''momentum'' then
        and_then (update_parameters_momentum (st_parameters st) grads learning_rate (st_v st) beta1)
          (\<lambda>(parameters, v).
             Inr (st\<lparr>st_parameters := parameters, st_v := v,
                      st_trace := st_trace st @ [Momentum_called]\<rparr>))
      else
        and_then (update_parameters (st_parameters st) grads learning_rate)
          (\<lambda>parameters.
             Inr (st\<lparr>st_parameters := parameters,
                      st_trace := st_trace st @ [Plain_called]\<rparr>))))))"

text \<open>
  The body of the loop over the epochs: the cost restarts at 0, the sampler is called,
  every mini-batch is processed, and every hundredth epoch prints the average cost.
\<close>

definition epoch_step ::
  "(int \<Rightarrow> nat list) \<Rightarrow> ndarray \<Rightarrow> ndarray \<Rightarrow> real \<Rightarrow> real \<Rightarrow> string \<Rightarrow> string \<Rightarrow> real \<Rightarrow> real
     \<Rightarrow> real \<Rightarrow> nat \<Rightarrow> int \<Rightarrow> int \<Rightarrow> train_state \<Rightarrow> error + train_state" where
  "epoch_step permutations X y learning_rate lambd regularization optimization beta1 beta2 epsilon t
       mini_batch_size epoch st =
     (let st = st\<lparr>st_cost := 0, st_trace := st_trace st @ [Sampler_called mini_batch_size]\<rparr> in
      and_then (generate_random_mini_batches (permutations epoch) X y mini_batch_size) (\<lambda>minibatches.
      and_then
        (for_loop minibatches
           (minibatch_step learning_rate lambd regularization optimization beta1 beta2 epsilon t) st)
        (\<lambda>st.
           if epoch mod 100 = 0 then
             if length minibatches = 0 then Inl ZeroDivisionError
             else Inr (st\<lparr>st_trace := st_trace st
                         @ [Printed epoch (st_cost st / real (length minibatches))]\<rparr>)
           else Inr st)))"

text \<open>
  \<^verbatim>\<open>train_nn_model(X, y, hidden_layers, epochs, learning_rate, lambd, regularization,
  optimization, beta1, beta2, epsilon, t)\<close>. \<open>randn\<close> and \<open>permutations\<close> are what the
  random generator returns: the samples for layer \<open>idx\<close>, and the permutation drawn in
  each epoch. The result is the parameter dictionary, paired with the history.
\<close>

definition train_nn_model ::
  "(nat \<Rightarrow> nat \<Rightarrow> nat \<Rightarrow> real) \<Rightarrow> (int \<Rightarrow> nat list) \<Rightarrow> ndarray \<Rightarrow> ndarray \<Rightarrow> int list \<Rightarrow> int
     \<Rightarrow> real \<Rightarrow> real \<Rightarrow> string \<Rightarrow> string \<Rightarrow> real \<Rightarrow> real \<Rightarrow> real \<Rightarrow> nat
     \<Rightarrow> error + (store \<times> event list)" where
  "train_nn_model randn permutations X y hidden_layers epochs learning_rate lambd regularization
       optimization beta1 beta2 epsilon t =
     (let layers = [int (shape0 X)] @ hidden_layers @ [1] in
      and_then (create_layers randn layers) (\<lambda>parameters.
      and_then
        (if optimization = ''rmsprop'' then
           and_then (initialize_rmsprop_params parameters) (\<lambda>s. Inr (Map.empty, s))
         else if optimization = ''adam'' then initialize_adam_params parameters
         else if optimization = ''momentum'' then
           and_then (initialize_momentum_params parameters) (\<lambda>v. Inr (v, Map.empty))
         else Inr (Map.empty, Map.empty))
        (\<lambda>(v, s).
      let mini_batch_size = 64 in
      and_then
        (for_loop [1..epochs]
           (epoch_step permutations X y learning_rate lambd regularization optimization beta1 beta2
              epsilon t mini_batch_size)
           \<lparr>st_parameters = parameters, st_v = v, st_s = s, st_cost = 0, st_trace = []\<rparr>)
        (\<lambda>st. Inr (st_parameters st, st_trace st)))))"

text \<open>The default values of the keyword arguments of \<^verbatim>\<open>train_nn_model\<close>.\<close>

definition default_epochs :: int where "default_epochs = 1500"
definition default_learning_rate :: real where "default_learning_rate = 0.0001"
definition default_lambd :: real where "default_lambd = 2.0"
definition default_regularization :: string where "default_regularization = ''l2''"
definition default_optimization :: string where "default_optimization = ''adam''"
definition default_beta1 :: real where "default_beta1 = 0.9"
definition default_beta2 :: real where "default_beta2 = 0.999"
definition default_epsilon :: real where "default_epsilon = 1 / 10 ^ 8"
definition default_t :: nat where "default_t = 2"

section \<open>Concrete inputs\<close>

text \<open>
  The logistic-regression network of the specification's literal scenario (topology
  \<open>[2, 1]\<close>, one example), and a batch of two examples for the same network.
\<close>

definition scenario_parameters :: store where
  "scenario_parameters = Map.empty(K_W 1 \<mapsto> Array 2 [[0.5, - 0.5]], K_b 1 \<mapsto> Array 1 [[0]])"

definition scenario_X :: ndarray where
  "scenario_X = Array 1 [[1], [1]]"

definition scenario_Y :: ndarray where
  "scenario_Y = Array 1 [[1]]"

definition two_examples_X :: ndarray where
  "two_examples_X = Array 2 [[1, 1], [1, 1]]"

definition two_examples_Y :: ndarray where
  "two_examples_Y = Array 2 [[1, 1]]"

text \<open>
  The indices of the \<open>k\<close>-th contiguous slice of width \<open>B\<close> of a permutation, in which
  the claims about the sampler are stated.
\<close>

definition chunk_indices :: "nat list \<Rightarrow> nat \<Rightarrow> nat \<Rightarrow> nat list" where
  "chunk_indices permutation B k = take B (drop (k * B) permutation)"

text \<open>A feature matrix of four examples, its labels, and a permutation of the four
  column indices.\<close>

definition four_examples_X :: ndarray where
  "four_examples_X = Array 4 [[10, 11, 12, 13], [20, 21, 22, 23]]"
definition four_examples_Y :: ndarray where
  "four_examples_Y = Array 4 [[0, 1, 0, 1]]"
definition four_permutation :: "nat list" where
  "four_permutation = [2, 0, 3, 1]"

text \<open>
  Three examples for the network of the literal scenario whose pre-activations are 0, 1
  and -1, and an input with three rows, which that network cannot take.
\<close>

definition threshold_X :: ndarray where
  "threshold_X = Array 3 [[1, 2, 0], [1, 0, 2]]"

definition misshaped_X :: ndarray where
  "misshaped_X = Array 1 [[1], [1], [1]]"

text \<open>
  A network with one weight 1 and bias 0, and two inputs of large magnitude for it.
\<close>

definition saturating_parameters :: store where
  "saturating_parameters = Map.empty(K_W 1 \<mapsto> Array 1 [[1]], K_b 1 \<mapsto> Array 1 [[0]])"

definition saturating_X :: ndarray where
  "saturating_X = Array 1 [[50]]"

definition overflowing_X :: ndarray where
  "overflowing_X = Array 1 [[- 800]]"

section \<open>Topologies and consistent parameter stores\<close>


definition layer_ok :: "nat list \<Rightarrow> store \<Rightarrow> nat \<Rightarrow> bool" where
  "layer_ok ns parameters i \<longleftrightarrow>
     (case (parameters (K_W i), parameters (K_b i)) of
        (Some W, Some b) \<Rightarrow>
          wf_array W \<and> shape0 W = ns ! i \<and> shape1 W = ns ! (i - 1)
          \<and> wf_array b \<and> shape0 b = ns ! i \<and> shape1 b = 1
      | _ \<Rightarrow> False)"

definition consistent :: "nat list \<Rightarrow> store \<Rightarrow> bool" where
  "consistent ns parameters \<longleftrightarrow>
     len parameters = 2 * (length ns - 1) \<and> list_all (layer_ok ns parameters) [1..<length ns]"

definition zero_randn :: "nat \<Rightarrow> nat \<Rightarrow> nat \<Rightarrow> real" where
  "zero_randn idx i j = 0"

text \<open>
  A gradient or accumulator dictionary mirrors a topology when, for every layer \<open>i\<close>, it
  holds a well-formed \<open>dW_i\<close> of the shape of \<open>W_i\<close> and a well-formed \<open>db_i\<close> of the shape
  of \<open>b_i\<close>.
\<close>

definition mirror_ok :: "nat list \<Rightarrow> store \<Rightarrow> nat \<Rightarrow> bool" where
  "mirror_ok ns d i \<longleftrightarrow>
     (case (d (K_dW i), d (K_db i)) of
        (Some dW, Some db) \<Rightarrow>
          wf_array dW \<and> shape0 dW = ns ! i \<and> shape1 dW = ns ! (i - 1)
          \<and> wf_array db \<and> shape0 db = ns ! i \<and> shape1 db = 1
      | _ \<Rightarrow> False)"

definition mirrors :: "nat list \<Rightarrow> store \<Rightarrow> bool" where
  "mirrors ns d \<longleftrightarrow> list_all (mirror_ok ns d) [1..<length ns]"

text \<open>
  The RMSProp rule in the specification's words, for one scalar parameter \<open>theta\<close> with
  gradient \<open>dtheta\<close> and accumulator \<open>s\<close>:
  \<open>s \<leftarrow> beta s + (1 - beta) dtheta\<^sup>2\<close>, \<open>s_hat = s / (1 - beta ^ t)\<close>,
  \<open>theta \<leftarrow> theta - alpha / (epsilon + sqrt s_hat)\<close>. It returns the new parameter and
  the new accumulator; the gradient enters through \<open>s_hat\<close> only.
\<close>

definition rmsprop_rule :: "real \<Rightarrow> nat \<Rightarrow> real \<Rightarrow> real \<Rightarrow> real \<Rightarrow> real \<Rightarrow> real \<Rightarrow> real \<times> real" where
  "rmsprop_rule learning_rate t beta epsilon theta dtheta s =
     (let s' = beta * s + (1 - beta) * dtheta\<^sup>2;
          s_hat = s' / (1 - beta ^ t)
      in (theta - learning_rate / (epsilon + sqrt s_hat), s'))"

text \<open>The gradients of the literal scenario, and a zero accumulator of their shape.\<close>

definition scenario_gradients :: store where
  "scenario_gradients = Map.empty(K_dW 1 \<mapsto> Array 2 [[- 0.5, - 0.5]], K_db 1 \<mapsto> Array 1 [[- 0.5]])"

definition scenario_accumulator :: store where
  "scenario_accumulator = Map.empty(K_dW 1 \<mapsto> Array 2 [[0, 0]], K_db 1 \<mapsto> Array 1 [[0]])"

section \<open>Reading the history of a run\<close>

text \<open>
  The update calls in a history, the step arguments \<open>t\<close> that the RMSProp and Adam calls
  received, the batch sizes the sampler was called with, and the entry that one update
  call leaves under a given optimizer name (the order of the tests is that of
  \<^verbatim>\<open>train_nn_model\<close>).
\<close>

fun is_update_call :: "event \<Rightarrow> bool" where
  "is_update_call (Rmsprop_called t) = True"
| "is_update_call (Adam_called t) = True"
| "is_update_call Momentum_called = True"
| "is_update_call Plain_called = True"
| "is_update_call _ = False"

definition update_calls :: "event list \<Rightarrow> event list" where
  "update_calls trace = filter is_update_call trace"

fun step_arguments :: "event list \<Rightarrow> nat list" where
  "step_arguments [] = []"
| "step_arguments (Rmsprop_called t # es) = t # step_arguments es"
| "step_arguments (Adam_called t # es) = t # step_arguments es"
| "step_arguments (e # es) = step_arguments es"

fun sampler_widths :: "event list \<Rightarrow> int list" where
  "sampler_widths [] = []"
| "sampler_widths (Sampler_called B # es) = B # sampler_widths es"
| "sampler_widths (e # es) = sampler_widths es"

definition update_event :: "string \<Rightarrow> nat \<Rightarrow> event" where
  "update_event optimization t =
     (if optimization = ''rmsprop'' then Rmsprop_called t
      else if optimization = ''adam'' then Adam_called t
      else if optimization = ''momentum'' then Momentum_called
      else Plain_called)"

text \<open>
  The parameter names in the signature of \<^verbatim>\<open>train_nn_model\<close>: the only keywords
  a call can pass.
\<close>

definition train_nn_model_keywords :: "string list" where
  "train_nn_model_keywords =
     [''X'', ''y'', ''hidden_layers'', ''epochs'', ''learning_rate'', ''lambd'', ''regularization'',
      ''optimization'', ''beta1'', ''beta2'', ''epsilon'', ''t'']"

text \<open>A data set of three examples with one feature, and the random generator that
  draws the permutation \<open>[2, 0, 1]\<close> in every epoch.\<close>

definition three_examples_X :: ndarray where
  "three_examples_X = Array 3 [[1, 2, 3]]"

definition three_examples_Y :: ndarray where
  "three_examples_Y = Array 3 [[1, 0, 1]]"

definition three_permutations :: "int \<Rightarrow> nat list" where
  "three_permutations epoch = [2, 0, 1]"

section \<open>Basic facts about results and arrays\<close>

lemma and_then_Inr [simp]: "and_then (Inr x) f = f x"
  by (simp add: and_then_def)

lemma and_then_Inl [simp]: "and_then (Inl e) f = Inl e"
  by (simp add: and_then_def)

lemma and_then_eq_Inr: "and_then r f = Inr y \<longleftrightarrow> (\<exists>x. r = Inr x \<and> f x = Inr y)"
  by (cases r) simp_all

lemma shape0_tabulate [simp]: "shape0 (tabulate r c f) = r"
  by (simp add: shape0_def tabulate_def)

lemma shape1_tabulate [simp]: "shape1 (tabulate r c f) = c"
  by (simp add: tabulate_def)

lemma entry_tabulate [simp]: "i < r \<Longrightarrow> j < c \<Longrightarrow> entry (tabulate r c f) i j = f i j"
  by (simp add: entry_def tabulate_def)

lemma wf_tabulate [simp]: "wf_array (tabulate r c f)"
  by (simp add: wf_array_def tabulate_def list_all_iff)

lemma shape0_map_array [simp]: "shape0 (map_array f a) = shape0 a"
  by (simp add: shape0_def map_array_def)

lemma shape1_map_array [simp]: "shape1 (map_array f a) = shape1 a"
  by (simp add: map_array_def)

lemma wf_map_array [simp]: "wf_array (map_array f a) = wf_array a"
  by (simp add: wf_array_def map_array_def list_all_iff)

lemma row_length_map_array [simp]:
  "i < shape0 a \<Longrightarrow> length (rows (map_array f a) ! i) = length (rows a ! i)"
  by (simp add: map_array_def shape0_def)

lemma entry_map_array [simp]:
  "i < shape0 a \<Longrightarrow> j < length (rows a ! i) \<Longrightarrow> entry (map_array f a) i j = f (entry a i j)"
  by (simp add: entry_def map_array_def shape0_def)

lemma wf_row_length: "wf_array a \<Longrightarrow> i < shape0 a \<Longrightarrow> length (rows a ! i) = shape1 a"
  by (simp add: wf_array_def shape0_def list_all_length)

text \<open>The equations that evaluate the array operations on concrete arrays.\<close>

lemmas array_eval = lookup_def np_dot_def np_add_def np_subtract_def np_multiply_def np_divide_def
  broadcast2_def bdim_def bentry_def entry_def tabulate_def shape0_def map_array_def
  transpose_array_def np_sum_def np_sum_axis1_def isub_def sigmoid_def sigmoid_derivative_def
  np_zeros_def upt_rec numeral_2_eq_2

section \<open>The literal scenario\<close>

lemma len_scenario_parameters: "len scenario_parameters = 2"
  by (simp add: len_def scenario_parameters_def)

lemma scenario_forward:
  "forward_propagation scenario_X scenario_parameters
     = Inr (Map.empty(K_A 0 \<mapsto> scenario_X, K_A 1 \<mapsto> Array 1 [[1/2]]), Array 1 [[1/2]])"
  by (simp add: forward_propagation_def len_scenario_parameters Let_def)
     (simp add: scenario_parameters_def scenario_X_def array_eval)

lemma scenario_pre_activation:
  "and_then (np_dot (Array 2 [[0.5, - 0.5]]) scenario_X) (\<lambda>WA. np_add WA (Array 1 [[0]]))
     = Inr (Array 1 [[0]])"
  by (simp add: scenario_X_def array_eval)

lemma scenario_cost:
  "compute_cost (Array 1 [[1/2]]) scenario_Y scenario_parameters 0 regularization = Inr (- ln (1/2))"
  by (simp add: compute_cost_def len_scenario_parameters Let_def)
     (simp add: scenario_parameters_def scenario_Y_def array_eval len_def)

lemma scenario_backward:
  "\<exists>g. backward_propagation scenario_Y scenario_parameters
      (Map.empty(K_A 0 \<mapsto> scenario_X, K_A 1 \<mapsto> Array 1 [[1/2]])) 0 regularization = Inr g
    \<and> g = Map.empty(K_dW 1 \<mapsto> Array 2 [[-1/2, -1/2]], K_db 1 \<mapsto> Array 1 [[-1/2]])"
  by (simp add: backward_propagation_def len_scenario_parameters Let_def)
     (auto simp add: scenario_parameters_def scenario_X_def scenario_Y_def array_eval len_def)

lemma scenario_update:
  "\<exists>p. update_parameters scenario_parameters
       (Map.empty(K_dW 1 \<mapsto> Array 2 [[-1/2, -1/2]], K_db 1 \<mapsto> Array 1 [[-1/2]])) 0.1 = Inr p
     \<and> p (K_W 1) = Some (Array 2 [[0.55, - 0.45]]) \<and> p (K_b 1) = Some (Array 1 [[0.05]])"
  by (simp add: update_parameters_def len_scenario_parameters Let_def)
     (simp add: scenario_parameters_def array_eval)

text \<open>Bounds of \<open>ln 2\<close> from the partial sums of the exponential series.\<close>

lemma exp_ge_partial_sum:
  fixes x :: real
  assumes "0 \<le> x \<or> even n"
  shows "(\<Sum>m<n. x ^ m / fact m) \<le> exp x"
proof -
  obtain u where "exp x = (\<Sum>m<n. x ^ m / fact m) + (exp u / fact n) * x ^ n"
    using Maclaurin_exp_le [of x n] by blast
  moreover have "0 \<le> (exp u / fact n) * x ^ n"
    using assms by (auto intro!: mult_nonneg_nonneg zero_le_even_power)
  ultimately show ?thesis by linarith
qed

lemma ln2_upper: "ln (2::real) < 0.69315"
proof -
  have "(2::real) < (\<Sum>m<10. (0.69315::real) ^ m / fact m)"
    by (simp add: lessThan_Suc eval_nat_numeral fact_numeral)
  also have "\<dots> \<le> exp 0.69315"
    by (rule exp_ge_partial_sum) simp
  finally have "exp (ln 2) < exp (0.69315::real)" by simp
  then show ?thesis by (simp only: exp_less_cancel_iff)
qed

lemma ln2_lower: "0.69305 < ln (2::real)"
proof -
  have "(1/2::real) < (\<Sum>m<10. (- 0.69305::real) ^ m / fact m)"
    by (simp add: lessThan_Suc eval_nat_numeral fact_numeral)
  also have "\<dots> \<le> exp (- 0.69305)"
    by (rule exp_ge_partial_sum) simp
  finally have "exp (- ln 2) < exp (- 0.69305::real)" by (simp add: exp_minus)
  then show ?thesis by simp
qed

text \<open>
  Claim C4. For the single-layer network with \<open>W_1 = [[0.5, -0.5]]\<close>, \<open>b_1 = [[0]]\<close>, the
  input \<open>X = [[1], [1]]\<close>, the label \<open>Y = [[1]]\<close> and \<open>lambda = 0\<close> (with or without L2
  regularization): the pre-activation is 0 and the forward pass predicts 0.5; the cost is
  \<open>- ln 0.5\<close>, which rounds to 0.6931; the backward pass returns \<open>dW = [[-0.5, -0.5]]\<close>
  and \<open>db = [[-0.5]]\<close>; the plain gradient-descent update with learning rate 0.1 gives
  \<open>W = [[0.55, -0.45]]\<close> and \<open>b = [[0.05]]\<close>.
\<close>

theorem literal_scenario:
  "\<exists>activations prediction cost gradients parameters'.
       and_then (np_dot (Array 2 [[0.5, - 0.5]]) scenario_X) (\<lambda>WA. np_add WA (Array 1 [[0]]))
         = Inr (Array 1 [[0]])
     \<and> forward_propagation scenario_X scenario_parameters = Inr (activations, prediction)
     \<and> prediction = Array 1 [[0.5]]
     \<and> compute_cost prediction scenario_Y scenario_parameters 0 regularization = Inr cost
     \<and> cost = - ln 0.5 \<and> \<bar>cost - 0.6931\<bar> < 0.00005
     \<and> backward_propagation scenario_Y scenario_parameters activations 0 regularization
         = Inr gradients
     \<and> gradients (K_dW 1) = Some (Array 2 [[- 0.5, - 0.5]])
     \<and> gradients (K_db 1) = Some (Array 1 [[- 0.5]])
     \<and> update_parameters scenario_parameters gradients 0.1 = Inr parameters'
     \<and> parameters' (K_W 1) = Some (Array 2 [[0.55, - 0.45]])
     \<and> parameters' (K_b 1) = Some (Array 1 [[0.05]])"
proof -
  have pre: "and_then (np_dot (Array 2 [[0.5, - 0.5]]) scenario_X) (\<lambda>WA. np_add WA (Array 1 [[0]]))
      = Inr (Array 1 [[0]])"
    by (rule scenario_pre_activation)
  have fwd: "forward_propagation scenario_X scenario_parameters
      = Inr (Map.empty(K_A 0 \<mapsto> scenario_X, K_A 1 \<mapsto> Array 1 [[1/2]]), Array 1 [[0.5]])"
    using scenario_forward by simp
  have cost: "compute_cost (Array 1 [[0.5]]) scenario_Y scenario_parameters 0 regularization
      = Inr (- ln 0.5)"
    using scenario_cost [of regularization] by simp
  have ln_half: "- ln (0.5::real) = ln 2"
    by (simp add: ln_div)
  have near: "\<bar>- ln 0.5 - 0.6931\<bar> < (0.00005::real)"
    unfolding ln_half abs_less_iff using ln2_lower ln2_upper by simp
  obtain g where g: "backward_propagation scenario_Y scenario_parameters
      (Map.empty(K_A 0 \<mapsto> scenario_X, K_A 1 \<mapsto> Array 1 [[1/2]])) 0 regularization = Inr g"
      and g_eq: "g = Map.empty(K_dW 1 \<mapsto> Array 2 [[-1/2, -1/2]], K_db 1 \<mapsto> Array 1 [[-1/2]])"
    using scenario_backward by blast
  have gW: "g (K_dW 1) = Some (Array 2 [[- 0.5, - 0.5]])"
    and gb: "g (K_db 1) = Some (Array 1 [[- 0.5]])"
    by (simp_all add: g_eq)
  obtain p where p: "update_parameters scenario_parameters g 0.1 = Inr p"
      "p (K_W 1) = Some (Array 2 [[0.55, - 0.45]])" "p (K_b 1) = Some (Array 1 [[0.05]])"
    using scenario_update g_eq by blast
  from pre fwd cost near g gW gb p show ?thesis
    by blast
qed

section \<open>The predictor\<close>

lemma predict_of_forward:
  "predict parameters X
     = (case forward_propagation X parameters of
          Inl e \<Rightarrow> Inl e
        | Inr (activations, op) \<Rightarrow> Inr (map_array (\<lambda>a. if a > 0.5 then 1 else 0) op))"
  by (simp add: predict_def and_then_def split: sum.splits prod.splits)

text \<open>
  Claim C10. The predictor thresholds strictly. When the forward pass returns a
  prediction, \<open>predict\<close> returns an array of the same shape which, at every position,
  holds 1 exactly when the activation is greater than 0.5 and 0 exactly when it is at
  most 0.5, so an activation equal to 0.5 is labelled 0. When the forward pass raises,
  \<open>predict\<close> raises the same exception, and \<open>predict\<close> returns in no other case.
\<close>

theorem predict_strict_threshold:
  "(\<forall>activations op.
       forward_propagation X parameters = Inr (activations, op) \<longrightarrow>
         (\<exists>p. predict parameters X = Inr p
            \<and> p = map_array (\<lambda>a. if a > 0.5 then 1 else 0) op
            \<and> shape0 p = shape0 op \<and> shape1 p = shape1 op
            \<and> (\<forall>i < shape0 op. length (rows p ! i) = length (rows op ! i)
                \<and> (\<forall>j < length (rows op ! i).
                      (entry p i j = 1 \<longleftrightarrow> entry op i j > 0.5)
                    \<and> (entry p i j = 0 \<longleftrightarrow> entry op i j \<le> 0.5)
                    \<and> (entry op i j = 0.5 \<longrightarrow> entry p i j = 0)))))
   \<and> (\<forall>e. forward_propagation X parameters = Inl e \<longrightarrow> predict parameters X = Inl e)
   \<and> (\<forall>p. predict parameters X = Inr p \<longrightarrow>
         (\<exists>activations op. forward_propagation X parameters = Inr (activations, op)))"
proof (intro conjI allI impI)
  fix activations op
  assume "forward_propagation X parameters = Inr (activations, op)"
  then have "predict parameters X = Inr (map_array (\<lambda>a. if a > 0.5 then 1 else 0) op)"
    by (simp add: predict_of_forward)
  then show "\<exists>p. predict parameters X = Inr p
            \<and> p = map_array (\<lambda>a. if a > 0.5 then 1 else 0) op
            \<and> shape0 p = shape0 op \<and> shape1 p = shape1 op
            \<and> (\<forall>i < shape0 op. length (rows p ! i) = length (rows op ! i)
                \<and> (\<forall>j < length (rows op ! i).
                      (entry p i j = 1 \<longleftrightarrow> entry op i j > 0.5)
                    \<and> (entry p i j = 0 \<longleftrightarrow> entry op i j \<le> 0.5)
                    \<and> (entry op i j = 0.5 \<longrightarrow> entry p i j = 0)))"
    by simp
next
  fix e
  assume "forward_propagation X parameters = Inl e"
  then show "predict parameters X = Inl e"
    by (simp add: predict_of_forward)
next
  fix p
  assume "predict parameters X = Inr p"
  then show "\<exists>activations op. forward_propagation X parameters = Inr (activations, op)"
    by (auto simp: predict_of_forward split: sum.splits)
qed

lemma threshold_forward:
  "\<exists>activations.
     forward_propagation threshold_X scenario_parameters
       = Inr (activations, Array 3 [[1 / 2, 1 / (1 + exp (- 1)), 1 / (1 + exp 1)]])"
  by (simp add: forward_propagation_def len_scenario_parameters Let_def)
     (simp add: scenario_parameters_def threshold_X_def array_eval eval_nat_numeral)

lemma misshaped_forward:
  "forward_propagation misshaped_X scenario_parameters = Inl ValueError"
  by (simp add: forward_propagation_def len_scenario_parameters Let_def)
     (simp add: scenario_parameters_def misshaped_X_def array_eval)

lemma threshold_labels:
  "map_array (\<lambda>a. if a > 0.5 then 1 else 0) (Array 3 [[1 / 2, 1 / (1 + exp (- 1)), 1 / (1 + exp 1)]])
     = Array 3 [[0, 1, 0]]"
proof -
  have "1 + exp (- 1 :: real) < 2"
    by simp
  then have "1 / 2 < 1 / (1 + exp (- 1 :: real))"
    by (rule divide_strict_left_mono) (simp_all add: add_pos_pos)
  then have above: "1 / (1 + exp (- 1 :: real)) > 0.5"
    by simp
  have "2 \<le> 1 + exp (1 :: real)"
    by simp
  then have "1 / (1 + exp (1 :: real)) \<le> 1 / 2"
    by (rule divide_left_mono) (simp_all add: add_pos_pos)
  then have below: "\<not> 1 / (1 + exp (1::real)) > 0.5"
    by simp
  from above below show ?thesis
    by (simp add: map_array_def)
qed

theorem predict_strict_threshold_witness:
  "\<exists>activations op.
       forward_propagation threshold_X scenario_parameters = Inr (activations, op)
     \<and> op = Array 3 [[1 / 2, 1 / (1 + exp (- 1)), 1 / (1 + exp 1)]]
     \<and> predict scenario_parameters threshold_X = Inr (Array 3 [[0, 1, 0]])
     \<and> forward_propagation misshaped_X scenario_parameters = Inl ValueError
     \<and> predict scenario_parameters misshaped_X = Inl ValueError"
proof -
  obtain activations
    where fwd: "forward_propagation threshold_X scenario_parameters
       = Inr (activations, Array 3 [[1 / 2, 1 / (1 + exp (- 1)), 1 / (1 + exp 1)]])"
    using threshold_forward by blast
  from predict_strict_threshold [of threshold_X scenario_parameters] fwd
  obtain p where "predict scenario_parameters threshold_X = Inr p"
    and "p = map_array (\<lambda>a. if a > 0.5 then 1 else 0)
               (Array 3 [[1 / 2, 1 / (1 + exp (- 1)), 1 / (1 + exp 1)]])"
    by blast
  then have labels: "predict scenario_parameters threshold_X = Inr (Array 3 [[0, 1, 0]])"
    by (simp only: threshold_labels)
  from predict_strict_threshold [of misshaped_X scenario_parameters] misshaped_forward
  have raises: "predict scenario_parameters misshaped_X = Inl ValueError"
    by blast
  from fwd labels misshaped_forward raises show ?thesis
    by blast
qed

section \<open>The gradients of a batch of two examples\<close>

lemma two_examples_forward:
  "forward_propagation two_examples_X scenario_parameters
     = Inr (Map.empty(K_A 0 \<mapsto> two_examples_X, K_A 1 \<mapsto> Array 2 [[1/2, 1/2]]),
            Array 2 [[1/2, 1/2]])"
  by (simp add: forward_propagation_def len_scenario_parameters Let_def)
     (simp add: scenario_parameters_def two_examples_X_def array_eval)

lemma two_examples_backward:
  "\<exists>g. backward_propagation two_examples_Y scenario_parameters
      (Map.empty(K_A 0 \<mapsto> two_examples_X, K_A 1 \<mapsto> Array 2 [[1/2, 1/2]])) 0 regularization = Inr g
    \<and> g (K_dW 1) = Some (Array 2 [[-1, -1]]) \<and> g (K_db 1) = Some (Array 1 [[-1]])"
  by (simp add: backward_propagation_def len_scenario_parameters Let_def)
     (auto simp add: scenario_parameters_def two_examples_X_def two_examples_Y_def array_eval
        len_def)

lemma two_examples_mean_gradient:
  "and_then (np_subtract (Array 2 [[1/2, 1/2]]) two_examples_Y) (\<lambda>dZ.
   and_then (np_dot dZ (transpose_array two_examples_X)) (\<lambda>d.
     Inr (map_array (\<lambda>x. (1 / real (shape1 two_examples_Y)) * x) d,
          map_array (\<lambda>x. (1 / real (shape1 two_examples_Y)) * x) (np_sum_axis1 dZ))))
     = Inr (Array 2 [[-1/2, -1/2]], Array 1 [[-1/2]])"
  by (simp add: two_examples_X_def two_examples_Y_def array_eval)

text \<open>
  Claim C1, evaluated on a batch of two examples. For the network of the literal scenario
  with \<open>X = [[1, 1], [1, 1]]\<close>, \<open>Y = [[1, 1]]\<close> and \<open>lambda = 0\<close> the label array has two
  columns, so the claim's \<open>m\<close> is 2 and \<open>(1/m) dZ A0\<^sup>T = [[-0.5, -0.5]]\<close>,
  \<open>(1/m) \<Sum> dZ = [[-0.5]]\<close>. \<open>backward_propagation\<close> divides by the number of rows of
  \<open>Y\<close>, which is 1, and returns \<open>dW = [[-1, -1]]\<close> and \<open>db = [[-1]]\<close>.
\<close>

theorem backward_propagation_divides_by_rows:
  "\<exists>activations prediction gradients.
       forward_propagation two_examples_X scenario_parameters = Inr (activations, prediction)
     \<and> backward_propagation two_examples_Y scenario_parameters activations 0 regularization
         = Inr gradients
     \<and> shape0 two_examples_Y = 1 \<and> shape1 two_examples_Y = 2
     \<and> gradients (K_dW 1) = Some (Array 2 [[- 1, - 1]])
     \<and> gradients (K_db 1) = Some (Array 1 [[- 1]])
     \<and> and_then (np_subtract prediction two_examples_Y) (\<lambda>dZ.
        and_then (np_dot dZ (transpose_array two_examples_X)) (\<lambda>d.
          Inr (map_array (\<lambda>x. (1 / real (shape1 two_examples_Y)) * x) d,
               map_array (\<lambda>x. (1 / real (shape1 two_examples_Y)) * x) (np_sum_axis1 dZ))))
         = Inr (Array 2 [[- 0.5, - 0.5]], Array 1 [[- 0.5]])"
proof -
  obtain g where g: "backward_propagation two_examples_Y scenario_parameters
      (Map.empty(K_A 0 \<mapsto> two_examples_X, K_A 1 \<mapsto> Array 2 [[1/2, 1/2]])) 0 regularization = Inr g"
      "g (K_dW 1) = Some (Array 2 [[- 1, - 1]])" "g (K_db 1) = Some (Array 1 [[- 1]])"
    using two_examples_backward by blast
  have shapes: "shape0 two_examples_Y = 1" "shape1 two_examples_Y = 2"
    by (simp_all add: two_examples_Y_def shape0_def)
  have mean: "and_then (np_subtract (Array 2 [[1/2, 1/2]]) two_examples_Y) (\<lambda>dZ.
        and_then (np_dot dZ (transpose_array two_examples_X)) (\<lambda>d.
          Inr (map_array (\<lambda>x. (1 / real (shape1 two_examples_Y)) * x) d,
               map_array (\<lambda>x. (1 / real (shape1 two_examples_Y)) * x) (np_sum_axis1 dZ))))
         = Inr (Array 2 [[- 0.5, - 0.5]], Array 1 [[- 0.5]])"
    using two_examples_mean_gradient by simp
  from two_examples_forward g shapes mean show ?thesis
    by blast
qed

section \<open>The mini-batch sampler\<close>

lemma tabulate_cong:
  "(\<And>i j. i < r \<Longrightarrow> j < c \<Longrightarrow> f i j = g i j) \<Longrightarrow> tabulate r c f = tabulate r c g"
  by (simp add: tabulate_def)

lemma concat_chunks: "concat (map (chunk_indices xs B) [0..<n]) = take (n * B) xs"
proof (induction n)
  case 0 show ?case by simp
next
  case (Suc n)
  have "Suc n * B = n * B + B" by simp
  then have "take (Suc n * B) xs = take (n * B) xs @ take B (drop (n * B) xs)"
    by (simp only: take_add)
  with Suc show ?case by (simp add: chunk_indices_def)
qed

lemma upto_as_upt: "[0..int n - 1] = map int [0..<n]"
proof (induction n)
  case 0 show ?case by simp
next
  case (Suc n)
  have "[0..int (Suc n) - 1] = [0..int n - 1] @ [int n]"
    using upto_rec2 [of 0 "int n"] by simp
  with Suc show ?case by simp
qed

lemma length_chunk_indices:
  "length (chunk_indices xs B k) = min B (length xs - k * B)"
  by (simp add: chunk_indices_def)

lemma chunk_indices_bound:
  assumes "j < length (chunk_indices xs B k)"
  shows "k * B + j < length xs" and "j < B"
  using assms unfolding length_chunk_indices by linarith+

lemma nth_chunk_indices:
  assumes "j < length (chunk_indices xs B k)"
  shows "chunk_indices xs B k ! j = xs ! (k * B + j)"
proof -
  have "k * B \<le> length xs" "j < B"
    using chunk_indices_bound [OF assms] by simp_all
  then show ?thesis
    by (simp add: chunk_indices_def)
qed

lemma set_chunk_indices: "set (chunk_indices xs B k) \<subseteq> set xs"
  unfolding chunk_indices_def by (meson set_take_subset set_drop_subset subset_trans)

lemma index_columns_ok:
  "\<forall>p \<in> set idxs. p < shape1 a \<Longrightarrow>
   index_columns a idxs = Inr (tabulate (shape0 a) (length idxs) (\<lambda>i j. entry a i (idxs ! j)))"
  by (auto simp: index_columns_def list_ex_iff)

lemma slice_index_nat: "slice_index (int k) n = min k n"
  by (simp add: slice_index_def)

text \<open>A slice of selected columns is the selection of the slice of the indices.\<close>

lemma slice_of_index_columns:
  assumes "0 < B"
  shows "slice_columns (tabulate r (length xs) (\<lambda>i j. entry a i (xs ! j)))
           (int k * int B) ((int k + 1) * int B)
         = tabulate r (length (chunk_indices xs B k)) (\<lambda>i j. entry a i (chunk_indices xs B k ! j))"
proof -
  have lo: "slice_index (int k * int B) (length xs) = min (k * B) (length xs)"
    using slice_index_nat [of "k * B" "length xs"] by simp
  have hi: "slice_index ((int k + 1) * int B) (length xs) = min ((k + 1) * B) (length xs)"
    using slice_index_nat [of "(k + 1) * B" "length xs"] by (simp add: algebra_simps)
  have w: "min ((k + 1) * B) (length xs) - min (k * B) (length xs) = length (chunk_indices xs B k)"
    by (auto simp: length_chunk_indices min_def)
  show ?thesis
    unfolding slice_columns_def Let_def shape1_tabulate shape0_tabulate lo hi w
  proof (rule tabulate_cong)
    fix i j assume i: "i < r" and j: "j < length (chunk_indices xs B k)"
    from j have "k * B + j < length xs"
      by (rule chunk_indices_bound)
    then have m: "min (k * B) (length xs) + j = k * B + j"
      by simp
    show "entry (tabulate r (length xs) (\<lambda>i j. entry a i (xs ! j))) i (min (k * B) (length xs) + j)
        = entry a i (chunk_indices xs B k ! j)"
      using i j \<open>k * B + j < length xs\<close> unfolding m
      by (simp add: nth_chunk_indices)
  qed
qed

lemma unique_chunk:
  assumes "0 < B" "distinct xs" "p \<in> set xs"
  shows "\<exists>!k. k < 1 + length xs div B \<and> p \<in> set (chunk_indices xs B k)"
proof -
  from assms(3) obtain idx where idx: "idx < length xs" "xs ! idx = p"
    by (auto simp: in_set_conv_nth)
  have in_chunk: "p \<in> set (chunk_indices xs B k) \<longleftrightarrow> k = idx div B" for k
  proof
    assume "p \<in> set (chunk_indices xs B k)"
    then obtain j where j: "j < length (chunk_indices xs B k)" "chunk_indices xs B k ! j = p"
      by (auto simp: in_set_conv_nth)
    then have "k * B + j < length xs" "j < B" "xs ! (k * B + j) = p"
      by (simp_all add: chunk_indices_bound nth_chunk_indices)
    with idx assms(2) have "k * B + j = idx"
      using nth_eq_iff_index_eq [of xs "k * B + j" idx] by simp
    with \<open>j < B\<close> show "k = idx div B"
      by auto
  next
    assume k: "k = idx div B"
    have "idx mod B < B" using assms(1) by simp
    moreover have kk: "k * B + idx mod B = idx" using k by simp
    ultimately have "idx mod B < length (chunk_indices xs B k)"
      using idx(1) by (simp add: length_chunk_indices)
    moreover from this have "chunk_indices xs B k ! (idx mod B) = p"
      using idx(2) kk by (simp add: nth_chunk_indices)
    ultimately show "p \<in> set (chunk_indices xs B k)"
      by (metis nth_mem)
  qed
  have "idx div B < 1 + length xs div B"
    using idx(1) by (simp add: div_le_mono less_Suc_eq_le)
  with in_chunk show ?thesis
    by auto
qed


lemma reshape_single_row:
  "reshape_row (tabulate 1 m f) m = Inr (tabulate 1 m f)"
  by (simp add: reshape_row_def tabulate_def shape0_def)

lemma generate_random_mini_batches_eq:
  assumes perm: "mset permutation = mset [0..<shape1 X]"
    and Y: "shape0 Y = 1" "shape1 Y = shape1 X"
    and B: "0 < B"
  shows "generate_random_mini_batches permutation X Y (int B)
    = Inr (map (\<lambda>k. (tabulate (shape0 X) (length (chunk_indices permutation B k))
                          (\<lambda>i j. entry X i (chunk_indices permutation B k ! j)),
                       tabulate 1 (length (chunk_indices permutation B k))
                          (\<lambda>i j. entry Y i (chunk_indices permutation B k ! j))))
             [0..<1 + shape1 X div B])"
proof -
  define SX where "SX = tabulate (shape0 X) (length permutation) (\<lambda>i j. entry X i (permutation ! j))"
  define SY where "SY = tabulate 1 (length permutation) (\<lambda>i j. entry Y i (permutation ! j))"
  have set_perm: "set permutation = {0..<shape1 X}"
    using mset_eq_setD [OF perm] by simp
  have len: "length permutation = shape1 X"
    using mset_eq_length [OF perm] by simp
  have iX: "index_columns X permutation = Inr SX"
    unfolding SX_def by (rule index_columns_ok) (simp add: set_perm)
  have iY: "index_columns Y permutation = Inr SY"
    unfolding SY_def using index_columns_ok [of permutation Y] by (simp add: set_perm Y)
  have rs: "reshape_row SY (shape1 X) = Inr SY"
    unfolding SY_def len by (rule reshape_single_row)
  have nz: "(int B = 0) = False"
    using B by simp
  have range: "[0..1 + int (shape1 X) div int B - 1] = map int [0..<1 + shape1 X div B]"
    using upto_as_upt [of "1 + shape1 X div B"] by (simp add: zdiv_int)
  have "generate_random_mini_batches permutation X Y (int B)
      = Inr (map (\<lambda>k. (slice_columns SX (k * int B) ((k + 1) * int B),
                         slice_columns SY (k * int B) ((k + 1) * int B)))
               (map int [0..<1 + shape1 X div B]))"
    unfolding generate_random_mini_batches_def Let_def iX iY and_then_Inr rs nz if_False range ..
  also have "\<dots> = Inr (map (\<lambda>k. (slice_columns SX (int k * int B) ((int k + 1) * int B),
                         slice_columns SY (int k * int B) ((int k + 1) * int B)))
               [0..<1 + shape1 X div B])"
    by (simp only: map_map comp_def)
  also have "\<dots> = Inr (map (\<lambda>k. (tabulate (shape0 X) (length (chunk_indices permutation B k))
                          (\<lambda>i j. entry X i (chunk_indices permutation B k ! j)),
                       tabulate 1 (length (chunk_indices permutation B k))
                          (\<lambda>i j. entry Y i (chunk_indices permutation B k ! j))))
             [0..<1 + shape1 X div B])"
    unfolding SX_def SY_def by (simp only: slice_of_index_columns [OF B])
  finally show ?thesis .
qed

text \<open>
  Claim C3. For a feature matrix \<open>X\<close> with \<open>m\<close> columns, a label row \<open>Y\<close> with \<open>m\<close>
  columns, a positive batch size \<open>B\<close> and the permutation of \<open>0 .. m-1\<close> that the random
  generator returns, the sampler returns exactly \<open>1 + m div B\<close> chunks; chunk \<open>k\<close> holds
  the columns of \<open>X\<close> and of \<open>Y\<close> selected by the \<open>k\<close>-th contiguous width-\<open>B\<close> slice of
  the permutation; the slices concatenated in chunk order are the permutation; every
  example index lies in exactly one chunk; the first \<open>m div B\<close> chunks have width \<open>B\<close>
  and the last one has width \<open>m mod B\<close>, so it is empty when \<open>m mod B = 0\<close>.
\<close>

theorem mini_batches_partition:
  assumes perm: "mset permutation = mset [0..<shape1 X]"
    and Y: "shape0 Y = 1" "shape1 Y = shape1 X"
    and pos: "0 < mini_batch_size"
  shows "\<exists>minibatches.
       generate_random_mini_batches permutation X Y mini_batch_size = Inr minibatches
     \<and> length minibatches = 1 + shape1 X div nat mini_batch_size
     \<and> (\<forall>k < length minibatches.
           index_columns X (chunk_indices permutation (nat mini_batch_size) k)
             = Inr (fst (minibatches ! k))
         \<and> index_columns Y (chunk_indices permutation (nat mini_batch_size) k)
             = Inr (snd (minibatches ! k)))
     \<and> concat (map (chunk_indices permutation (nat mini_batch_size)) [0..<length minibatches])
         = permutation
     \<and> (\<forall>p < shape1 X. \<exists>!k. k < length minibatches
                            \<and> p \<in> set (chunk_indices permutation (nat mini_batch_size) k))
     \<and> (\<forall>k < shape1 X div nat mini_batch_size.
           shape1 (fst (minibatches ! k)) = nat mini_batch_size
         \<and> shape1 (snd (minibatches ! k)) = nat mini_batch_size)
     \<and> shape1 (fst (last minibatches)) = shape1 X mod nat mini_batch_size
     \<and> shape1 (snd (last minibatches)) = shape1 X mod nat mini_batch_size
     \<and> (shape1 X mod nat mini_batch_size = 0 \<longrightarrow>
           shape1 (fst (last minibatches)) = 0 \<and> shape1 (snd (last minibatches)) = 0)"
proof -
  define B where "B = nat mini_batch_size"
  define m where "m = shape1 X"
  define chunk where "chunk = chunk_indices permutation B"
  define mbs where "mbs = map (\<lambda>k. (tabulate (shape0 X) (length (chunk k)) (\<lambda>i j. entry X i (chunk k ! j)),
                          tabulate 1 (length (chunk k)) (\<lambda>i j. entry Y i (chunk k ! j))))
             [0..<1 + m div B]"
  have B: "0 < B" and bs: "mini_batch_size = int B"
    using pos by (simp_all add: B_def)
  have set_perm: "set permutation = {0..<m}"
    using mset_eq_setD [OF perm] by (simp add: m_def)
  have len: "length permutation = m"
    using mset_eq_length [OF perm] by (simp add: m_def)
  have dist: "distinct permutation"
    using perm by (metis distinct_upt mset_eq_imp_distinct_iff)
  have run: "generate_random_mini_batches permutation X Y mini_batch_size = Inr mbs"
    unfolding bs mbs_def chunk_def m_def
    by (rule generate_random_mini_batches_eq [OF perm Y B])
  have n: "length mbs = 1 + m div B"
    by (simp add: mbs_def)
  have nth: "mbs ! k = (tabulate (shape0 X) (length (chunk k)) (\<lambda>i j. entry X i (chunk k ! j)),
                        tabulate 1 (length (chunk k)) (\<lambda>i j. entry Y i (chunk k ! j)))"
    if "k < 1 + m div B" for k
    using that unfolding mbs_def by (simp del: upt_Suc)
  have sub: "\<forall>p \<in> set (chunk k). p < m" for k
    using set_chunk_indices [of permutation B k] set_perm by (auto simp: chunk_def)
  have cols: "index_columns X (chunk k) = Inr (fst (mbs ! k))
            \<and> index_columns Y (chunk k) = Inr (snd (mbs ! k))"
    if "k < length mbs" for k
    using that index_columns_ok [of "chunk k" X] index_columns_ok [of "chunk k" Y] sub [of k]
    by (simp add: n nth Y m_def)
  have "m mod B < B"
    using B by simp
  moreover have "m div B * B + m mod B = m"
    by simp
  ultimately have "m \<le> (1 + m div B) * B"
    unfolding distrib_right by linarith
  then have cat: "concat (map chunk [0..<length mbs]) = permutation"
    unfolding chunk_def concat_chunks n by (simp add: len)
  have uniq: "\<exists>!k. k < length mbs \<and> p \<in> set (chunk k)" if "p < m" for p
    using unique_chunk [OF B dist, of p] that set_perm by (simp add: n len chunk_def)
  have width: "length (chunk k) = B" if "k < m div B" for k
  proof -
    from that have "Suc k \<le> m div B" by simp
    then have "Suc k * B \<le> m div B * B" by (rule mult_le_mono1)
    also have "\<dots> \<le> m" by simp
    finally show ?thesis
      by (simp add: chunk_def length_chunk_indices len)
  qed
  have full: "shape1 (fst (mbs ! k)) = B \<and> shape1 (snd (mbs ! k)) = B" if "k < m div B" for k
    using that width [OF that] by (simp add: nth)
  have last: "last mbs = mbs ! (m div B)"
    using n by (metis add_diff_cancel_left' last_conv_nth length_0_conv plus_1_eq_Suc nat.distinct(1))
  have "length (chunk (m div B)) = m mod B"
    using B by (simp add: chunk_def length_chunk_indices len minus_div_mult_eq_mod)
  then have tail: "shape1 (fst (last mbs)) = m mod B" "shape1 (snd (last mbs)) = m mod B"
    by (simp_all add: last nth)
  show ?thesis
    using run n cols cat uniq full tail
    unfolding B_def [symmetric] m_def [symmetric] chunk_def [symmetric]
    by (intro exI [of _ mbs]) simp
qed

theorem mini_batches_partition_witness:
  "mset four_permutation = mset [0..<shape1 four_examples_X]
   \<and> shape0 four_examples_Y = 1 \<and> shape1 four_examples_Y = shape1 four_examples_X
   \<and> (0::int) < 2 \<and> shape1 four_examples_X mod nat 2 = 0
   \<and> (\<exists>minibatches.
         generate_random_mini_batches four_permutation four_examples_X four_examples_Y 2
           = Inr minibatches
       \<and> length minibatches = 3
       \<and> concat (map (chunk_indices four_permutation 2) [0..<3]) = four_permutation
       \<and> shape1 (fst (last minibatches)) = 0 \<and> shape1 (snd (last minibatches)) = 0)"
proof -
  have perm: "mset four_permutation = mset [0..<shape1 four_examples_X]"
    by (simp add: four_permutation_def four_examples_X_def upt_rec eval_nat_numeral)
  have Y: "shape0 four_examples_Y = 1" "shape1 four_examples_Y = shape1 four_examples_X"
    by (simp_all add: four_examples_Y_def four_examples_X_def shape0_def)
  have pos: "(0::int) < 2"
    by simp
  have m: "shape1 four_examples_X = 4"
    by (simp add: four_examples_X_def)
  have exact: "shape1 four_examples_X mod nat 2 = 0"
    by (simp add: m)
  from mini_batches_partition [OF perm Y pos] obtain minibatches
    where run: "generate_random_mini_batches four_permutation four_examples_X four_examples_Y 2
                  = Inr minibatches"
      and n: "length minibatches = 1 + shape1 four_examples_X div nat 2"
      and cat: "concat (map (chunk_indices four_permutation (nat 2)) [0..<length minibatches])
                  = four_permutation"
      and tail: "shape1 four_examples_X mod nat 2 = 0 \<longrightarrow>
                   shape1 (fst (last minibatches)) = 0 \<and> shape1 (snd (last minibatches)) = 0"
    by (elim exE conjE) (rule that, assumption+)
  have n3: "length minibatches = 3"
    using n by (simp add: m)
  have cat3: "concat (map (chunk_indices four_permutation 2) [0..<3]) = four_permutation"
    using cat unfolding n3 by simp
  from exact tail have empty: "shape1 (fst (last minibatches)) = 0 \<and> shape1 (snd (last minibatches)) = 0"
    by (rule rev_mp)
  show ?thesis
    by (intro conjI exI [of _ minibatches] perm Y pos exact run n3 cat3 empty [THEN conjunct1]
          empty [THEN conjunct2])

qed

section \<open>Loops\<close>

lemma for_loop_append:
  "for_loop (xs @ ys) body s = and_then (for_loop xs body s) (for_loop ys body)"
  by (induction xs arbitrary: s) (simp_all split: sum.splits)

text \<open>A loop whose body keeps an invariant of the processed prefix returns, and the
  invariant holds of the whole range.\<close>

lemma for_loop_invariant:
  assumes "I [] s"
    and "\<And>ys i zs s. xs = ys @ i # zs \<Longrightarrow> I ys s \<Longrightarrow> \<exists>s'. body i s = Inr s' \<and> I (ys @ [i]) s'"
  shows "\<exists>s'. for_loop xs body s = Inr s' \<and> I xs s'"
  using assms
proof (induction xs arbitrary: s rule: rev_induct)
  case Nil
  then show ?case by simp
next
  case (snoc x xs)
  have "\<exists>s'. for_loop xs body s = Inr s' \<and> I xs s'"
  proof (rule snoc.IH [OF snoc.prems(1)])
    fix ys i zs s assume "xs = ys @ i # zs" "I ys s"
    then show "\<exists>s'. body i s = Inr s' \<and> I (ys @ [i]) s'"
      using snoc.prems(2) [of ys i "zs @ [x]" s] by simp
  qed
  then obtain s1 where s1: "for_loop xs body s = Inr s1" "I xs s1"
    by blast
  from snoc.prems(2) [of xs x "[]" s1] s1(2)
  obtain s2 where "body x s1 = Inr s2" "I (xs @ [x]) s2"
    by auto
  with s1 show ?case
    by (simp add: for_loop_append)
qed



section \<open>The initializer\<close>

lemma initialize_parameters_ok:
  assumes "0 < n_in" "0 \<le> n_out"
  shows "\<exists>W b. initialize_parameters g n_in n_out = Inr (W, b)
           \<and> wf_array W \<and> shape0 W = nat n_out \<and> shape1 W = nat n_in
           \<and> wf_array b \<and> shape0 b = nat n_out \<and> shape1 b = 1"
  using assms by (simp add: initialize_parameters_def Let_def np_zeros_def)



lemma card_keys: "finite A \<Longrightarrow> card (K_W ` A \<union> K_b ` A) = 2 * card A"
proof -
  assume "finite A"
  have "K_W ` A \<inter> K_b ` A = {}" by auto
  moreover have "card (K_W ` A) = card A" "card (K_b ` A) = card A"
    by (simp_all add: card_image inj_on_def)
  ultimately show ?thesis
    using \<open>finite A\<close> by (simp add: card_Un_disjoint)
qed

lemma create_layers_ok:
  assumes "\<And>i. Suc i < length layers_list \<Longrightarrow> 0 < layers_list ! i \<and> 0 \<le> layers_list ! Suc i"
  shows "\<exists>parameters. create_layers randn layers_list = Inr parameters
           \<and> dom parameters = K_W ` {1..<length layers_list} \<union> K_b ` {1..<length layers_list}
           \<and> (\<forall>idx \<in> {1..<length layers_list}. layer_ok (map nat layers_list) parameters idx)"
proof -
  define I where "I = (\<lambda>ys (parameters :: store).
      dom parameters = K_W ` set ys \<union> K_b ` set ys
      \<and> (\<forall>idx \<in> set ys. layer_ok (map nat layers_list) parameters idx))"
  define body where "body = (\<lambda>idx (parameters :: store).
      and_then (initialize_parameters (randn idx) (layers_list ! (idx - 1)) (layers_list ! idx))
        (\<lambda>(W, b). Inr (parameters(K_W idx \<mapsto> W, K_b idx \<mapsto> b))))"
  have "\<exists>s'. for_loop [1..<length layers_list] body Map.empty = Inr s' \<and> I [1..<length layers_list] s'"
  proof (rule for_loop_invariant)
    show "I [] Map.empty" by (simp add: I_def)
  next
    fix ys idx zs and parameters :: store
    assume split: "[1..<length layers_list] = ys @ idx # zs" and inv: "I ys parameters"
    have "idx \<in> set [1..<length layers_list]"
      unfolding split by simp
    then have idx: "1 \<le> idx" "idx < length layers_list"
      by simp_all
    have "distinct (ys @ idx # zs)"
      using distinct_upt [of 1 "length layers_list"] unfolding split .
    then have fresh: "idx \<notin> set ys"
      by simp
    from idx assms [of "idx - 1"]
    have "0 < layers_list ! (idx - 1)" "0 \<le> layers_list ! idx"
      by simp_all
    from initialize_parameters_ok [OF this, of "randn idx"]
    obtain W b where Wb: "initialize_parameters (randn idx) (layers_list ! (idx - 1)) (layers_list ! idx) = Inr (W, b)"
      "wf_array W" "shape0 W = nat (layers_list ! idx)" "shape1 W = nat (layers_list ! (idx - 1))"
      "wf_array b" "shape0 b = nat (layers_list ! idx)" "shape1 b = 1"
      by blast
    have new: "layer_ok (map nat layers_list) (parameters(K_W idx \<mapsto> W, K_b idx \<mapsto> b)) idx"
      using Wb idx by (simp add: layer_ok_def)
    have old: "layer_ok (map nat layers_list) (parameters(K_W idx \<mapsto> W, K_b idx \<mapsto> b)) j"
      if "j \<in> set ys" for j
    proof -
      from that fresh have "j \<noteq> idx" by auto
      moreover from inv that have "layer_ok (map nat layers_list) parameters j"
        by (simp add: I_def)
      ultimately show ?thesis
        by (simp add: layer_ok_def)
    qed
    have "I (ys @ [idx]) (parameters(K_W idx \<mapsto> W, K_b idx \<mapsto> b))"
      unfolding I_def using inv new old by (auto simp: I_def)
    then show "\<exists>s'. body idx parameters = Inr s' \<and> I (ys @ [idx]) s'"
      using Wb(1) by (simp add: body_def)
  qed
  then show ?thesis
    by (simp add: create_layers_def body_def I_def)
qed



lemma consistent_from_dom:
  assumes "dom parameters = K_W ` {1..<length ns} \<union> K_b ` {1..<length ns}"
    and "\<forall>idx \<in> {1..<length ns}. layer_ok ns parameters idx"
  shows "consistent ns parameters"
  using assms card_keys [of "{1..<length ns}"]
  by (simp add: consistent_def len_def list_all_iff)




section \<open>Forward propagation\<close>

lemma upt_split:
  assumes "[a..<b] = ys @ i # zs"
  shows "ys = [a..<i]" and "a \<le> i" and "i < b"
proof -
  have len: "length ys < b - a"
    using arg_cong [OF assms, of length] by simp
  have "[a..<b] ! length ys = i"
    unfolding assms by simp
  with len have i: "i = a + length ys"
    by simp
  have "ys = take (length ys) [a..<b]"
    unfolding assms by simp
  also have "\<dots> = [a..<i]"
    using len by (simp add: take_upt i)
  finally show "ys = [a..<i]" .
  show "a \<le> i" "i < b"
    using i len by simp_all
qed

lemma entries_map_array: "entries (map_array f a) = f ` entries a"
  by (auto simp: entries_def map_array_def)

lemma sigmoid_range: "0 < 1 / (1 + exp (- x :: real))" "1 / (1 + exp (- x :: real)) < 1"
proof -
  have "0 < exp (- x)" by simp
  then show "0 < 1 / (1 + exp (- x))" "1 / (1 + exp (- x)) < 1"
    by (simp_all add: add_pos_pos)
qed

lemma entries_sigmoid: "a \<in> entries (sigmoid z) \<Longrightarrow> 0 < a \<and> a < 1"
  using sigmoid_range by (auto simp: sigmoid_def entries_map_array)

lemma bdim_same [simp]: "bdim n n = Some n"
  by (simp add: bdim_def)

lemma bdim_one_right [simp]: "bdim n (Suc 0) = Some n"
  by (simp add: bdim_def)

lemma np_dot_ok:
  "shape1 a = shape0 b \<Longrightarrow>
   np_dot a b = Inr (tabulate (shape0 a) (shape1 b)
                  (\<lambda>i j. \<Sum>k \<leftarrow> [0..<shape1 a]. entry a i k * entry b k j))"
  by (simp add: np_dot_def)

lemma broadcast2_same_shape:
  "shape0 a = shape0 b \<Longrightarrow> shape1 a = shape1 b \<Longrightarrow>
   broadcast2 f a b = Inr (tabulate (shape0 a) (shape1 a) (\<lambda>i j. f (bentry a i j) (bentry b i j)))"
  by (simp add: broadcast2_def)

lemma broadcast2_column:
  "shape0 a = shape0 b \<Longrightarrow> shape1 b = 1 \<Longrightarrow>
   broadcast2 f a b = Inr (tabulate (shape0 a) (shape1 a) (\<lambda>i j. f (bentry a i j) (bentry b i j)))"
  by (simp add: broadcast2_def)

lemma consistent_len: "consistent ns parameters \<Longrightarrow> 1 \<le> length ns \<Longrightarrow> 1 + len parameters div 2 = length ns"
  by (simp add: consistent_def)

lemma consistent_layer:
  assumes "consistent ns parameters" "1 \<le> i" "i < length ns"
  obtains W b where "parameters (K_W i) = Some W" "parameters (K_b i) = Some b"
    "wf_array W" "shape0 W = ns ! i" "shape1 W = ns ! (i - 1)"
    "wf_array b" "shape0 b = ns ! i" "shape1 b = 1"
proof -
  from assms have "layer_ok ns parameters i"
    by (simp add: consistent_def list_all_iff)
  then show ?thesis
    using that by (auto simp: layer_ok_def split: option.splits)
qed

lemma lookup_Some [simp]: "d k = Some a \<Longrightarrow> lookup d k = Inr a"
  by (simp add: lookup_def)

text \<open>
  The activations in exact arithmetic. For every parameter dictionary consistent with a
  topology of at least two entries and every input batch with as many rows as the first
  layer has inputs, the forward pass returns, and every entry of every activation it
  produces (\<open>A_1\<close> to \<open>A_L\<close>, in particular the prediction \<open>A_L\<close>) lies strictly
  between 0 and 1. This is a fact about the real number \<open>1 / (1 + exp (- z))\<close>; the
  notebook computes the quotient in 64-bit floats, which round it, and the facts after it
  show where that rounding reaches the bounds.
\<close>

lemma forward_propagation_exact_range:
  assumes cons: "consistent ns parameters" and L: "2 \<le> length ns"
    and X: "shape0 X = ns ! 0"
  shows "\<exists>activations prediction.
       forward_propagation X parameters = Inr (activations, prediction)
     \<and> (\<forall>i \<in> {1..<length ns}. \<exists>A. activations (K_A i) = Some A
            \<and> wf_array A \<and> shape0 A = ns ! i \<and> shape1 A = shape1 X
            \<and> (\<forall>a \<in> entries A. 0 < a \<and> a < 1))
     \<and> activations (K_A (length ns - 1)) = Some prediction
     \<and> (\<forall>a \<in> entries prediction. 0 < a \<and> a < 1)"
proof -
  define good where "good = (\<lambda>i A. wf_array A \<and> shape0 A = ns ! i \<and> shape1 A = shape1 X
      \<and> (\<forall>a \<in> entries A. 0 < a \<and> a < 1))"
  define I where "I = (\<lambda>ys (activations :: store).
      activations (K_A 0) = Some X
      \<and> (\<forall>i \<in> set ys. \<exists>A. activations (K_A i) = Some A \<and> good i A))"
  define body where "body = (\<lambda>idx (activations :: store).
      and_then (lookup parameters (K_W idx)) (\<lambda>W.
      and_then (lookup activations (K_A (idx - 1))) (\<lambda>A_prev.
      and_then (np_dot W A_prev) (\<lambda>WA.
      and_then (lookup parameters (K_b idx)) (\<lambda>b.
      and_then (np_add WA b) (\<lambda>Z.
      Inr (activations(K_A idx \<mapsto> sigmoid Z))))))))"
  have limit: "1 + len parameters div 2 = length ns"
    using consistent_len [OF cons] L by simp
  have "\<exists>s'. for_loop [1..<length ns] body (Map.empty(K_A 0 \<mapsto> X)) = Inr s' \<and> I [1..<length ns] s'"
  proof (rule for_loop_invariant)
    show "I [] (Map.empty(K_A 0 \<mapsto> X))"
      by (simp add: I_def)
  next
    fix ys idx zs and activations :: store
    assume split: "[1..<length ns] = ys @ idx # zs" and inv: "I ys activations"
    note idx = upt_split [OF split]
    obtain W b where Wb: "parameters (K_W idx) = Some W" "parameters (K_b idx) = Some b"
      "wf_array W" "shape0 W = ns ! idx" "shape1 W = ns ! (idx - 1)"
      "wf_array b" "shape0 b = ns ! idx" "shape1 b = 1"
      using consistent_layer [OF cons idx(2) idx(3)] by blast
    have "\<exists>A_prev. activations (K_A (idx - 1)) = Some A_prev
            \<and> shape0 A_prev = ns ! (idx - 1) \<and> shape1 A_prev = shape1 X"
    proof (cases "idx = 1")
      case True
      with inv X show ?thesis by (simp add: I_def)
    next
      case False
      with idx have "idx - 1 \<in> set ys" by simp
      with inv show ?thesis by (auto simp: I_def good_def)
    qed
    then obtain A_prev where A_prev: "activations (K_A (idx - 1)) = Some A_prev"
      "shape0 A_prev = ns ! (idx - 1)" "shape1 A_prev = shape1 X"
      by blast
    define WA where "WA = tabulate (shape0 W) (shape1 A_prev)
                  (\<lambda>i j. \<Sum>k \<leftarrow> [0..<shape1 W]. entry W i k * entry A_prev k j)"
    have dot: "np_dot W A_prev = Inr WA"
      unfolding WA_def by (rule np_dot_ok) (simp add: Wb A_prev)
    define Z where "Z = tabulate (shape0 WA) (shape1 WA) (\<lambda>i j. bentry WA i j + bentry b i j)"
    have add: "np_add WA b = Inr Z"
      unfolding Z_def np_add_def by (rule broadcast2_column) (simp_all add: WA_def Wb)
    have "good idx (sigmoid Z)"
      using entries_sigmoid [of _ Z]
      by (auto simp: good_def sigmoid_def Z_def WA_def Wb A_prev)
    moreover have "idx \<noteq> 0" "idx \<notin> set ys"
      using idx by simp_all
    ultimately have "I (ys @ [idx]) (activations(K_A idx \<mapsto> sigmoid Z))"
      using inv by (auto simp: I_def)
    moreover have "body idx activations = Inr (activations(K_A idx \<mapsto> sigmoid Z))"
      using A_prev(1) by (simp add: body_def Wb dot add)
    ultimately show "\<exists>s'. body idx activations = Inr s' \<and> I (ys @ [idx]) s'"
      by simp
  qed
  then obtain activations where loop: "for_loop [1..<length ns] body (Map.empty(K_A 0 \<mapsto> X)) = Inr activations"
    and inv: "I [1..<length ns] activations"
    by blast
  have "length ns - 1 \<in> set [1..<length ns]"
    using L by auto
  with inv obtain prediction where pred: "activations (K_A (length ns - 1)) = Some prediction"
    "good (length ns - 1) prediction"
    unfolding I_def by blast
  have "forward_propagation X parameters = Inr (activations, prediction)"
    unfolding forward_propagation_def Let_def limit using loop pred(1)
    by (simp add: body_def)
  with inv pred show ?thesis
    by (auto simp: I_def good_def)
qed


lemma consistent_scenario: "consistent [2, 1] scenario_parameters"
  by (simp add: consistent_def len_scenario_parameters layer_ok_def)
     (simp add: scenario_parameters_def wf_array_def shape0_def)

lemma forward_propagation_exact_range_scenario:
  "consistent [2, 1] scenario_parameters \<and> 2 \<le> length [2::nat, 1] \<and> shape0 scenario_X = [2, 1] ! 0
   \<and> (\<exists>activations prediction.
         forward_propagation scenario_X scenario_parameters = Inr (activations, prediction)
       \<and> activations (K_A 1) = Some prediction
       \<and> (\<forall>a \<in> entries prediction. 0 < a \<and> a < 1))"
proof -
  have L: "2 \<le> length [2::nat, 1]"
    by simp
  have X: "shape0 scenario_X = [2, 1] ! 0"
    by (simp add: scenario_X_def shape0_def)
  from forward_propagation_exact_range [OF consistent_scenario L X]
  obtain activations prediction
    where "forward_propagation scenario_X scenario_parameters = Inr (activations, prediction)"
      and "activations (K_A (length [2::nat, 1] - 1)) = Some prediction"
      and "\<forall>a \<in> entries prediction. 0 < a \<and> a < 1"
    by (elim exE conjE) (rule that, assumption+)
  then show ?thesis
    using consistent_scenario L X by auto
qed

text \<open>
  Two inputs at the edge of the floats. For the one-weight network with \<open>W_1 = [[1]]\<close>
  and \<open>b_1 = [[0]]\<close> the pre-activation is the input itself. At \<open>z = 50\<close> the exact
  \<open>exp (- z)\<close> is below \<open>2 ^ -53\<close>, half the distance from 1 to the next 64-bit float, so
  the float sum \<open>1 + np.exp(-z)\<close> is 1.0 and the float activation is exactly 1.0. At
  \<open>z = -800\<close> the exact \<open>exp (- z)\<close> is above \<open>2 ^ 1024\<close>, beyond the largest 64-bit
  float, so \<open>np.exp(-z)\<close> is \<open>inf\<close> and the float activation is exactly 0.0. The exact
  activations stay inside the interval, as the model has them.
\<close>

lemma len_saturating_parameters: "len saturating_parameters = 2"
  by (simp add: len_def saturating_parameters_def)

lemma saturating_forward:
  "\<exists>activations.
     forward_propagation saturating_X saturating_parameters
       = Inr (activations, Array 1 [[1 / (1 + exp (- 50))]])"
  by (simp add: forward_propagation_def len_saturating_parameters Let_def)
     (simp add: saturating_parameters_def saturating_X_def array_eval)

lemma overflowing_forward:
  "\<exists>activations.
     forward_propagation overflowing_X saturating_parameters
       = Inr (activations, Array 1 [[1 / (1 + exp 800)]])"
  by (simp add: forward_propagation_def len_saturating_parameters Let_def)
     (simp add: saturating_parameters_def overflowing_X_def array_eval)

lemma exp_one_lower: "5 / 2 \<le> exp (1::real)"
  using exp_lower_Taylor_quadratic [of "1::real"] by simp

lemma exp_nat_lower: "(5 / 2) ^ n \<le> exp (real n)"
proof -
  have "(5 / 2) ^ n \<le> exp (1::real) ^ n"
    by (rule power_mono [OF exp_one_lower]) simp
  also have "\<dots> = exp (real n)"
    using exp_of_nat_mult [of n "1::real"] by simp
  finally show ?thesis .
qed

lemma exp_minus_50_below_half_spacing: "exp (- 50 :: real) < 1 / 2 ^ 53"
proof -
  have "(2::real) ^ 53 < (5 / 2) ^ 50"
    by (simp add: power_divide field_simps)
  also have "\<dots> \<le> exp (real 50)"
    by (rule exp_nat_lower)
  finally have "(2::real) ^ 53 < exp 50"
    by simp
  then have "1 / exp (50::real) < 1 / 2 ^ 53"
    by (simp add: divide_strict_left_mono)
  then show ?thesis
    by (simp add: exp_minus inverse_eq_divide)
qed

lemma exp_800_above_largest_float: "(2::real) ^ 1024 < exp 800"
proof -
  have "(2::real) ^ 1024 < (5 / 2) ^ 800"
    by (simp add: power_divide field_simps)
  also have "\<dots> \<le> exp (real 800)"
    by (rule exp_nat_lower)
  finally show ?thesis
    by simp
qed

section \<open>RMSProp\<close>

lemma wf_array_tabulate_entry:
  assumes "wf_array a"
  shows "tabulate (shape0 a) (shape1 a) (entry a) = a"
proof -
  have "map (\<lambda>i. map (\<lambda>j. rows a ! i ! j) [0..<shape1 a]) [0..<length (rows a)] = rows a"
  proof (rule nth_equalityI)
    show "length (map (\<lambda>i. map (\<lambda>j. rows a ! i ! j) [0..<shape1 a]) [0..<length (rows a)]) = length (rows a)"
      by simp
  next
    fix i assume "i < length (map (\<lambda>i. map (\<lambda>j. rows a ! i ! j) [0..<shape1 a]) [0..<length (rows a)])"
    then have i: "i < length (rows a)" by simp
    with assms have "length (rows a ! i) = shape1 a"
      by (simp add: wf_array_def list_all_length)
    then have "map (\<lambda>j. rows a ! i ! j) [0..<shape1 a] = rows a ! i"
      by (metis map_nth)
    with i show "map (\<lambda>i. map (\<lambda>j. rows a ! i ! j) [0..<shape1 a]) [0..<length (rows a)] ! i = rows a ! i"
      by simp
  qed
  then show ?thesis
    by (cases a) (simp add: tabulate_def shape0_def entry_def)
qed

lemma map_array_tabulate: "map_array f (tabulate r c g) = tabulate r c (\<lambda>i j. f (g i j))"
  by (simp add: map_array_def tabulate_def comp_def)

lemma map_array_wf:
  "wf_array a \<Longrightarrow> map_array f a = tabulate (shape0 a) (shape1 a) (\<lambda>i j. f (entry a i j))"
  using map_array_tabulate [of f "shape0 a" "shape1 a" "entry a"]
  by (simp add: wf_array_tabulate_entry)

lemma bentry_in_range: "i < shape0 a \<Longrightarrow> j < shape1 a \<Longrightarrow> bentry a i j = entry a i j"
  by (auto simp: bentry_def)

lemma broadcast2_elementwise:
  assumes "shape0 a = shape0 b" "shape1 a = shape1 b"
  shows "broadcast2 f a b = Inr (tabulate (shape0 a) (shape1 a) (\<lambda>i j. f (entry a i j) (entry b i j)))"
proof -
  have "tabulate (shape0 a) (shape1 a) (\<lambda>i j. f (bentry a i j) (bentry b i j))
      = tabulate (shape0 a) (shape1 a) (\<lambda>i j. f (entry a i j) (entry b i j))"
    by (rule tabulate_cong) (simp add: bentry_in_range assms)
  then show ?thesis
    by (simp add: broadcast2_same_shape [OF assms])
qed

lemma isub_elementwise:
  assumes "shape0 a = shape0 b" "shape1 a = shape1 b"
  shows "isub a b = Inr (tabulate (shape0 a) (shape1 a) (\<lambda>i j. entry a i j - entry b i j))"
  by (simp add: isub_def np_subtract_def broadcast2_elementwise [OF assms])

lemma tabulate_eqI:
  "r = r' \<Longrightarrow> c = c' \<Longrightarrow> (\<And>i j. i < r' \<Longrightarrow> j < c' \<Longrightarrow> f i j = g i j)
   \<Longrightarrow> tabulate r c f = tabulate r' c' g"
  by (simp add: tabulate_def)

text \<open>One RMSProp step on one parameter array.\<close>

lemma rmsprop_accumulator:
  assumes "wf_array s_old" "wf_array g"
    and "shape0 s_old = n" "shape1 s_old = m" "shape0 g = n" "shape1 g = m"
  shows "np_add (map_array (\<lambda>x. beta * x) s_old) (map_array (\<lambda>x. (1 - beta) * x\<^sup>2) g)
       = Inr (tabulate n m (\<lambda>r c. beta * entry s_old r c + (1 - beta) * (entry g r c)\<^sup>2))"
  unfolding np_add_def using assms
  by (simp add: broadcast2_elementwise map_array_wf cong: tabulate_eqI)

lemma rmsprop_parameter:
  assumes "wf_array s_new" "shape0 s_new = n" "shape1 s_new = m"
    and "shape0 theta = n" "shape1 theta = m"
  shows "isub theta (map_array (\<lambda>x. learning_rate * 1 / (epsilon + sqrt x))
                      (map_array (\<lambda>x. x / (1 - beta ^ t)) s_new))
         = Inr (tabulate n m (\<lambda>r c. entry theta r c
                  - learning_rate / (epsilon + sqrt (entry s_new r c / (1 - beta ^ t)))))"
  using assms
  by (simp add: isub_elementwise map_array_wf map_array_tabulate cong: tabulate_eqI)


lemma mirrors_layer:
  assumes "mirrors ns d" "1 \<le> i" "i < length ns"
  obtains dW db where "d (K_dW i) = Some dW" "d (K_db i) = Some db"
    "wf_array dW" "shape0 dW = ns ! i" "shape1 dW = ns ! (i - 1)"
    "wf_array db" "shape0 db = ns ! i" "shape1 db = 1"
proof -
  from assms have "mirror_ok ns d i"
    by (simp add: mirrors_def list_all_iff)
  then show ?thesis
    using that by (auto simp: mirror_ok_def split: option.splits)
qed

text \<open>The loop body of RMSProp on a layer whose arrays have matching shapes.\<close>

lemma rmsprop_body_layer:
  fixes beta :: real
  assumes P: "P (K_W i) = Some W" "P (K_b i) = Some b"
    and S: "S (K_dW i) = Some s_dW" "S (K_db i) = Some s_db"
    and G: "gradients (K_dW i) = Some dW" "gradients (K_db i) = Some db"
    and W: "shape0 W = n" "shape1 W = m" and b: "shape0 b = n" "shape1 b = 1"
    and sW: "wf_array s_dW" "shape0 s_dW = n" "shape1 s_dW = m"
    and sb: "wf_array s_db" "shape0 s_db = n" "shape1 s_db = 1"
    and gW: "wf_array dW" "shape0 dW = n" "shape1 dW = m"
    and gb: "wf_array db" "shape0 db = n" "shape1 db = 1"
  defines "s_dW' \<equiv> tabulate n m (\<lambda>r c. beta * entry s_dW r c + (1 - beta) * (entry dW r c)\<^sup>2)"
    and "s_db' \<equiv> tabulate n 1 (\<lambda>r c. beta * entry s_db r c + (1 - beta) * (entry db r c)\<^sup>2)"
  shows "rmsprop_body gradients learning_rate t beta epsilon i (P, S, SC)
    = Inr (P(K_W i \<mapsto> tabulate n m (\<lambda>r c. entry W r c
                          - learning_rate / (epsilon + sqrt (entry s_dW' r c / (1 - beta ^ t)))),
             K_b i \<mapsto> tabulate n 1 (\<lambda>r c. entry b r c
                          - learning_rate / (epsilon + sqrt (entry s_db' r c / (1 - beta ^ t))))),
           S(K_dW i \<mapsto> s_dW', K_db i \<mapsto> s_db'),
           SC(K_dW i \<mapsto> map_array (\<lambda>x. x / (1 - beta ^ t)) s_dW',
              K_db i \<mapsto> map_array (\<lambda>x. x / (1 - beta ^ t)) s_db'))"
proof -
  have accW: "np_add (map_array (\<lambda>x. beta * x) s_dW) (map_array (\<lambda>x. (1 - beta) * x\<^sup>2) dW) = Inr s_dW'"
    unfolding s_dW'_def by (rule rmsprop_accumulator [OF sW(1) gW(1) sW(2,3) gW(2,3)])
  have accb: "np_add (map_array (\<lambda>x. beta * x) s_db) (map_array (\<lambda>x. (1 - beta) * x\<^sup>2) db) = Inr s_db'"
    unfolding s_db'_def by (rule rmsprop_accumulator [OF sb(1) gb(1) sb(2,3) gb(2,3)])
  have parW: "isub W (map_array (\<lambda>x. learning_rate * 1 / (epsilon + sqrt x))
                      (map_array (\<lambda>x. x / (1 - beta ^ t)) s_dW'))
         = Inr (tabulate n m (\<lambda>r c. entry W r c
                  - learning_rate / (epsilon + sqrt (entry s_dW' r c / (1 - beta ^ t)))))"
    by (rule rmsprop_parameter [OF _ _ _ W]) (simp_all add: s_dW'_def)
  have parb: "isub b (map_array (\<lambda>x. learning_rate * 1 / (epsilon + sqrt x))
                      (map_array (\<lambda>x. x / (1 - beta ^ t)) s_db'))
         = Inr (tabulate n 1 (\<lambda>r c. entry b r c
                  - learning_rate / (epsilon + sqrt (entry s_db' r c / (1 - beta ^ t)))))"
    by (rule rmsprop_parameter [OF _ _ _ b]) (simp_all add: s_db'_def)
  show ?thesis
    unfolding rmsprop_body_def
    by (simp add: P S G accW accb Let_def parW parb del: mult_1_right divide_divide_eq_left)
qed


lemma consistent_range:
  "consistent ns parameters \<Longrightarrow> [1..<1 + len parameters div 2] = [1..<length ns]"
  by (cases "length ns") (simp_all add: consistent_def)

text \<open>
  Claim C5. For parameters consistent with a topology, and gradients and accumulators of
  the same shapes, one call of \<open>update_parameters_rmsprop\<close> returns, and at every position
  of every \<open>W_i\<close> and \<open>b_i\<close> the new accumulator and the new parameter are those of the
  rule \<open>s \<leftarrow> beta s + (1 - beta) dtheta\<^sup>2\<close>, \<open>s_hat = s / (1 - beta ^ t)\<close>,
  \<open>theta \<leftarrow> theta - alpha / (epsilon + sqrt s_hat)\<close>: the step is
  \<open>alpha / (epsilon + sqrt s_hat)\<close>, without the factor \<open>dtheta\<close>.
\<close>

theorem rmsprop_update_rule:
  assumes cons: "consistent ns parameters" and g: "mirrors ns gradients" and s: "mirrors ns s"
  shows "\<exists>parameters' s'.
      update_parameters_rmsprop parameters gradients learning_rate s t beta epsilon
        = Inr (parameters', s')
    \<and> consistent ns parameters' \<and> mirrors ns s'
    \<and> (\<forall>i \<in> {1..<length ns}.
          \<exists>W dW s_dW W' s_dW' b db s_db b' s_db'.
             parameters (K_W i) = Some W \<and> gradients (K_dW i) = Some dW \<and> s (K_dW i) = Some s_dW
           \<and> parameters' (K_W i) = Some W' \<and> s' (K_dW i) = Some s_dW'
           \<and> parameters (K_b i) = Some b \<and> gradients (K_db i) = Some db \<and> s (K_db i) = Some s_db
           \<and> parameters' (K_b i) = Some b' \<and> s' (K_db i) = Some s_db'
           \<and> (\<forall>r < ns ! i. \<forall>c < ns ! (i - 1).
                 (entry W' r c, entry s_dW' r c)
                   = rmsprop_rule learning_rate t beta epsilon
                       (entry W r c) (entry dW r c) (entry s_dW r c))
           \<and> (\<forall>r < ns ! i.
                 (entry b' r 0, entry s_db' r 0)
                   = rmsprop_rule learning_rate t beta epsilon
                       (entry b r 0) (entry db r 0) (entry s_db r 0)))"
proof -
  define updated where "updated = (\<lambda>i (P :: store) (S :: store).
      layer_ok ns P i \<and> mirror_ok ns S i
    \<and> (\<exists>W dW s_dW W' s_dW' b db s_db b' s_db'.
             parameters (K_W i) = Some W \<and> gradients (K_dW i) = Some dW \<and> s (K_dW i) = Some s_dW
           \<and> P (K_W i) = Some W' \<and> S (K_dW i) = Some s_dW'
           \<and> parameters (K_b i) = Some b \<and> gradients (K_db i) = Some db \<and> s (K_db i) = Some s_db
           \<and> P (K_b i) = Some b' \<and> S (K_db i) = Some s_db'
           \<and> (\<forall>r < ns ! i. \<forall>c < ns ! (i - 1).
                 (entry W' r c, entry s_dW' r c)
                   = rmsprop_rule learning_rate t beta epsilon
                       (entry W r c) (entry dW r c) (entry s_dW r c))
           \<and> (\<forall>r < ns ! i.
                 (entry b' r 0, entry s_db' r 0)
                   = rmsprop_rule learning_rate t beta epsilon
                       (entry b r 0) (entry db r 0) (entry s_db r 0))))"
  define I where "I = (\<lambda>ys (st :: store \<times> store \<times> store).
      case st of (P, S, SC) \<Rightarrow>
        (\<forall>i. i \<notin> set ys \<longrightarrow> P (K_W i) = parameters (K_W i) \<and> P (K_b i) = parameters (K_b i)
                           \<and> S (K_dW i) = s (K_dW i) \<and> S (K_db i) = s (K_db i))
      \<and> (\<forall>i \<in> set ys. updated i P S)
      \<and> dom P = dom parameters)"
  have "\<exists>st. for_loop [1..<length ns] (rmsprop_body gradients learning_rate t beta epsilon)
                (parameters, s, Map.empty) = Inr st \<and> I [1..<length ns] st"
  proof (rule for_loop_invariant)
    show "I [] (parameters, s, Map.empty)"
      by (simp add: I_def)
  next
    fix ys i zs and st :: "store \<times> store \<times> store"
    assume split: "[1..<length ns] = ys @ i # zs" and inv: "I ys st"
    obtain P S SC where st: "st = (P, S, SC)"
      by (cases st) auto
    note i = upt_split [OF split]
    have fresh: "i \<notin> set ys"
      unfolding i(1) by simp
    obtain W b where Wb: "parameters (K_W i) = Some W" "parameters (K_b i) = Some b"
      "wf_array W" "shape0 W = ns ! i" "shape1 W = ns ! (i - 1)"
      "wf_array b" "shape0 b = ns ! i" "shape1 b = 1"
      using consistent_layer [OF cons i(2) i(3)] by blast
    obtain dW db where G: "gradients (K_dW i) = Some dW" "gradients (K_db i) = Some db"
      "wf_array dW" "shape0 dW = ns ! i" "shape1 dW = ns ! (i - 1)"
      "wf_array db" "shape0 db = ns ! i" "shape1 db = 1"
      using mirrors_layer [OF g i(2) i(3)] by blast
    obtain s_dW s_db where S: "s (K_dW i) = Some s_dW" "s (K_db i) = Some s_db"
      "wf_array s_dW" "shape0 s_dW = ns ! i" "shape1 s_dW = ns ! (i - 1)"
      "wf_array s_db" "shape0 s_db = ns ! i" "shape1 s_db = 1"
      using mirrors_layer [OF s i(2) i(3)] by blast
    from inv fresh have cur: "P (K_W i) = Some W" "P (K_b i) = Some b"
        "S (K_dW i) = Some s_dW" "S (K_db i) = Some s_db"
      by (simp_all add: I_def st Wb S)
    define s_dW' where "s_dW' = tabulate (ns ! i) (ns ! (i - 1))
        (\<lambda>r c. beta * entry s_dW r c + (1 - beta) * (entry dW r c)\<^sup>2)"
    define s_db' where "s_db' = tabulate (ns ! i) 1
        (\<lambda>r c. beta * entry s_db r c + (1 - beta) * (entry db r c)\<^sup>2)"
    define W' where "W' = tabulate (ns ! i) (ns ! (i - 1)) (\<lambda>r c. entry W r c
                          - learning_rate / (epsilon + sqrt (entry s_dW' r c / (1 - beta ^ t))))"
    define b' where "b' = tabulate (ns ! i) 1 (\<lambda>r c. entry b r c
                          - learning_rate / (epsilon + sqrt (entry s_db' r c / (1 - beta ^ t))))"
    define P' where "P' = P(K_W i \<mapsto> W', K_b i \<mapsto> b')"
    define S' where "S' = S(K_dW i \<mapsto> s_dW', K_db i \<mapsto> s_db')"
    define SC' where "SC' = SC(K_dW i \<mapsto> map_array (\<lambda>x. x / (1 - beta ^ t)) s_dW',
              K_db i \<mapsto> map_array (\<lambda>x. x / (1 - beta ^ t)) s_db')"
    have step: "rmsprop_body gradients learning_rate t beta epsilon i st = Inr (P', S', SC')"
      unfolding st P'_def S'_def SC'_def W'_def b'_def s_dW'_def s_db'_def
      by (rule rmsprop_body_layer [OF cur G(1,2) Wb(4,5,7,8) S(3-8) G(3-8)])
    have new: "updated i P' S'"
      unfolding updated_def
    proof (intro conjI exI)
      show "layer_ok ns P' i"
        by (simp add: layer_ok_def P'_def W'_def b'_def)
      show "mirror_ok ns S' i"
        by (simp add: mirror_ok_def S'_def s_dW'_def s_db'_def)
      show "parameters (K_W i) = Some W" "gradients (K_dW i) = Some dW" "s (K_dW i) = Some s_dW"
        "parameters (K_b i) = Some b" "gradients (K_db i) = Some db" "s (K_db i) = Some s_db"
        by (fact Wb G S)+
      show "P' (K_W i) = Some W'" "S' (K_dW i) = Some s_dW'" "P' (K_b i) = Some b'"
        "S' (K_db i) = Some s_db'"
        by (simp_all add: P'_def S'_def)
      show "\<forall>r < ns ! i. \<forall>c < ns ! (i - 1).
                 (entry W' r c, entry s_dW' r c)
                   = rmsprop_rule learning_rate t beta epsilon
                       (entry W r c) (entry dW r c) (entry s_dW r c)"
        by (simp add: W'_def s_dW'_def rmsprop_rule_def Let_def)
      show "\<forall>r < ns ! i.
                 (entry b' r 0, entry s_db' r 0)
                   = rmsprop_rule learning_rate t beta epsilon
                       (entry b r 0) (entry db r 0) (entry s_db r 0)"
        by (simp add: b'_def s_db'_def rmsprop_rule_def Let_def)
    qed
    have old: "updated j P' S'" if "j \<in> set ys" for j
    proof -
      from that fresh have "j \<noteq> i" by auto
      then have same: "P' (K_W j) = P (K_W j)" "P' (K_b j) = P (K_b j)"
          "S' (K_dW j) = S (K_dW j)" "S' (K_db j) = S (K_db j)"
        by (simp_all add: P'_def S'_def)
      from inv that have "updated j P S"
        by (simp add: I_def st)
      then show ?thesis
        unfolding updated_def layer_ok_def mirror_ok_def same .
    qed
    have untouched: "P' (K_W j) = parameters (K_W j) \<and> P' (K_b j) = parameters (K_b j)
                           \<and> S' (K_dW j) = s (K_dW j) \<and> S' (K_db j) = s (K_db j)"
      if "j \<notin> set (ys @ [i])" for j
      using that inv by (simp add: I_def st P'_def S'_def)
    have "dom P' = dom parameters"
      using inv cur by (auto simp: I_def st P'_def)
    with new old untouched have "I (ys @ [i]) (P', S', SC')"
      by (auto simp: I_def)
    with step show "\<exists>s'. rmsprop_body gradients learning_rate t beta epsilon i st = Inr s'
                        \<and> I (ys @ [i]) s'"
      by blast
  qed
  then obtain P S SC
    where loop: "for_loop [1..<length ns] (rmsprop_body gradients learning_rate t beta epsilon)
                (parameters, s, Map.empty) = Inr (P, S, SC)"
      and inv: "I [1..<length ns] (P, S, SC)"
    by (metis prod_cases3)
  have run: "update_parameters_rmsprop parameters gradients learning_rate s t beta epsilon = Inr (P, S)"
    unfolding update_parameters_rmsprop_def consistent_range [OF cons] loop by simp
  have all: "\<forall>i \<in> {1..<length ns}. updated i P S"
    using inv by (simp add: I_def)
  have "len P = len parameters"
    using inv by (simp add: I_def len_def)
  with all cons have "consistent ns P"
    by (simp add: consistent_def list_all_iff updated_def)
  moreover from all have "mirrors ns S"
    by (simp add: mirrors_def list_all_iff updated_def)
  ultimately show ?thesis
    using run all unfolding updated_def by blast
qed

lemma mirrors_scenario: "mirrors [2, 1] scenario_gradients" "mirrors [2, 1] scenario_accumulator"
  by (simp_all add: mirrors_def mirror_ok_def scenario_gradients_def scenario_accumulator_def
        wf_array_def shape0_def)

theorem rmsprop_update_rule_witness:
  "consistent [2, 1] scenario_parameters \<and> mirrors [2, 1] scenario_gradients
   \<and> mirrors [2, 1] scenario_accumulator
   \<and> (\<exists>parameters' s' W' s_dW'.
         update_parameters_rmsprop scenario_parameters scenario_gradients 0.1
             scenario_accumulator 1 0.999 default_epsilon = Inr (parameters', s')
       \<and> parameters' (K_W 1) = Some W' \<and> s' (K_dW 1) = Some s_dW'
       \<and> (entry W' 0 0, entry s_dW' 0 0) = (0.5 - 0.1 / (default_epsilon + 0.5), 0.00025))"
proof -
  from rmsprop_update_rule [OF consistent_scenario mirrors_scenario,
      of "0.1" 1 "0.999" default_epsilon]
  obtain parameters' s'
    where run: "update_parameters_rmsprop scenario_parameters scenario_gradients 0.1
             scenario_accumulator 1 0.999 default_epsilon = Inr (parameters', s')"
      and layers: "\<forall>i \<in> {1..<length [2::nat, 1]}.
          \<exists>W dW s_dW W' s_dW' b db s_db b' s_db'.
             scenario_parameters (K_W i) = Some W \<and> scenario_gradients (K_dW i) = Some dW
           \<and> scenario_accumulator (K_dW i) = Some s_dW
           \<and> parameters' (K_W i) = Some W' \<and> s' (K_dW i) = Some s_dW'
           \<and> scenario_parameters (K_b i) = Some b \<and> scenario_gradients (K_db i) = Some db
           \<and> scenario_accumulator (K_db i) = Some s_db
           \<and> parameters' (K_b i) = Some b' \<and> s' (K_db i) = Some s_db'
           \<and> (\<forall>r < [2::nat, 1] ! i. \<forall>c < [2::nat, 1] ! (i - 1).
                 (entry W' r c, entry s_dW' r c)
                   = rmsprop_rule 0.1 1 0.999 default_epsilon
                       (entry W r c) (entry dW r c) (entry s_dW r c))
           \<and> (\<forall>r < [2::nat, 1] ! i.
                 (entry b' r 0, entry s_db' r 0)
                   = rmsprop_rule 0.1 1 0.999 default_epsilon
                       (entry b r 0) (entry db r 0) (entry s_db r 0))"
    by (elim exE conjE) (rule that, assumption+)
  from layers have "\<exists>W dW s_dW W' s_dW'.
             scenario_parameters (K_W 1) = Some W \<and> scenario_gradients (K_dW 1) = Some dW
           \<and> scenario_accumulator (K_dW 1) = Some s_dW
           \<and> parameters' (K_W 1) = Some W' \<and> s' (K_dW 1) = Some s_dW'
           \<and> (entry W' 0 0, entry s_dW' 0 0)
                   = rmsprop_rule 0.1 1 0.999 default_epsilon
                       (entry W 0 0) (entry dW 0 0) (entry s_dW 0 0)"
    by (auto dest!: bspec [where x = 1])
  then obtain W' s_dW' where new: "parameters' (K_W 1) = Some W'" "s' (K_dW 1) = Some s_dW'"
    and rule: "(entry W' 0 0, entry s_dW' 0 0)
                   = rmsprop_rule 0.1 1 0.999 default_epsilon 0.5 (- 0.5) 0"
    by (auto simp: scenario_parameters_def scenario_gradients_def scenario_accumulator_def entry_def)
  have "sqrt (1 / 4) = (1 / 2 :: real)"
    by (simp add: real_sqrt_divide)
  then have "rmsprop_rule 0.1 1 0.999 default_epsilon 0.5 (- 0.5) 0
      = (0.5 - 0.1 / (default_epsilon + 0.5), 0.00025)"
    by (simp add: rmsprop_rule_def Let_def power2_eq_square)
  with run new rule consistent_scenario mirrors_scenario show ?thesis
    by auto
qed

section \<open>The history of a training run\<close>

lemma minibatch_step_trace:
  assumes "minibatch_step learning_rate lambd regularization optimization beta1 beta2 epsilon t
             minibatch st = Inr st'"
  shows "st_trace st' = st_trace st @ [update_event optimization t]"
proof -
  obtain mX my where mb: "minibatch = (mX, my)"
    by (cases minibatch)
  from assms obtain ap
    where "(case ap of (activations, prediction) \<Rightarrow>
      and_then (backward_propagation my (st_parameters st) activations lambd regularization) (\<lambda>grads.
      and_then (compute_cost prediction my (st_parameters st) lambd regularization) (\<lambda>c.
      let st = st\<lparr>st_cost := st_cost st + c\<rparr> in
      if optimization = ''rmsprop'' then
        and_then (update_parameters_rmsprop (st_parameters st) grads learning_rate (st_s st) t beta2 epsilon)
          (\<lambda>(parameters, s).
             Inr (st\<lparr>st_parameters := parameters, st_s := s,
                      st_trace := st_trace st @ [Rmsprop_called t]\<rparr>))
      else if optimization = ''adam'' then
        and_then (update_parameters_adam (st_parameters st) grads learning_rate (st_v st) (st_s st) t
                    beta1 beta2 epsilon)
          (\<lambda>(parameters, v, s).
             Inr (st\<lparr>st_parameters := parameters, st_v := v, st_s := s,
                      st_trace := st_trace st @ [Adam_called t]\<rparr>))
      else if optimization = ''momentum'' then
        and_then (update_parameters_momentum (st_parameters st) grads learning_rate (st_v st) beta1)
          (\<lambda>(parameters, v).
             Inr (st\<lparr>st_parameters := parameters, st_v := v,
                      st_trace := st_trace st @ [Momentum_called]\<rparr>))
      else
        and_then (update_parameters (st_parameters st) grads learning_rate)
          (\<lambda>parameters.
             Inr (st\<lparr>st_parameters := parameters,
                      st_trace := st_trace st @ [Plain_called]\<rparr>))))) = Inr st'"
    unfolding minibatch_step_def mb prod.case and_then_eq_Inr by blast
  then obtain activations prediction grads c
    where upd: "(let st = st\<lparr>st_cost := st_cost st + c\<rparr> in
      if optimization = ''rmsprop'' then
        and_then (update_parameters_rmsprop (st_parameters st) grads learning_rate (st_s st) t beta2 epsilon)
          (\<lambda>(parameters, s).
             Inr (st\<lparr>st_parameters := parameters, st_s := s,
                      st_trace := st_trace st @ [Rmsprop_called t]\<rparr>))
      else if optimization = ''adam'' then
        and_then (update_parameters_adam (st_parameters st) grads learning_rate (st_v st) (st_s st) t
                    beta1 beta2 epsilon)
          (\<lambda>(parameters, v, s).
             Inr (st\<lparr>st_parameters := parameters, st_v := v, st_s := s,
                      st_trace := st_trace st @ [Adam_called t]\<rparr>))
      else if optimization = ''momentum'' then
        and_then (update_parameters_momentum (st_parameters st) grads learning_rate (st_v st) beta1)
          (\<lambda>(parameters, v).
             Inr (st\<lparr>st_parameters := parameters, st_v := v,
                      st_trace := st_trace st @ [Momentum_called]\<rparr>))
      else
        and_then (update_parameters (st_parameters st) grads learning_rate)
          (\<lambda>parameters.
             Inr (st\<lparr>st_parameters := parameters,
                      st_trace := st_trace st @ [Plain_called]\<rparr>))) = Inr st'"
    by (cases ap) (auto simp: and_then_eq_Inr)
  consider "optimization = ''rmsprop''"
    | "optimization \<noteq> ''rmsprop''" "optimization = ''adam''"
    | "optimization \<noteq> ''rmsprop''" "optimization \<noteq> ''adam''" "optimization = ''momentum''"
    | "optimization \<noteq> ''rmsprop''" "optimization \<noteq> ''adam''" "optimization \<noteq> ''momentum''"
    by blast
  then show ?thesis
  proof cases
    case 1
    with upd show ?thesis
      by (auto simp: Let_def and_then_eq_Inr update_event_def)
  next
    case 2
    with upd show ?thesis
      by (auto simp: Let_def and_then_eq_Inr update_event_def)
  next
    case 3
    with upd show ?thesis
      by (auto simp: Let_def and_then_eq_Inr update_event_def)
  next
    case 4
    with upd show ?thesis
      by (auto simp: Let_def and_then_eq_Inr update_event_def)
  qed
qed

lemma minibatches_loop_trace:
  assumes "for_loop minibatches
             (minibatch_step learning_rate lambd regularization optimization beta1 beta2 epsilon t)
             st = Inr st'"
  shows "st_trace st' = st_trace st @ replicate (length minibatches) (update_event optimization t)"
  using assms
proof (induction minibatches arbitrary: st)
  case Nil
  then show ?case by simp
next
  case (Cons mb mbs)
  from Cons.prems obtain st1
    where one: "minibatch_step learning_rate lambd regularization optimization beta1 beta2 epsilon t
                  mb st = Inr st1"
      and rest: "for_loop mbs
             (minibatch_step learning_rate lambd regularization optimization beta1 beta2 epsilon t)
             st1 = Inr st'"
    by (auto split: sum.splits)
  from Cons.IH [OF rest] minibatch_step_trace [OF one] show ?case
    by (simp add: replicate_append_same)
qed

lemma generate_random_mini_batches_length:
  assumes "generate_random_mini_batches permutation X Y mini_batch_size = Inr minibatches"
  shows "length minibatches = nat (1 + int (shape1 X) div mini_batch_size)"
  using assms
  by (auto simp: generate_random_mini_batches_def and_then_eq_Inr Let_def split: if_splits)

lemma update_calls_append [simp]: "update_calls (xs @ ys) = update_calls xs @ update_calls ys"
  by (simp add: update_calls_def)

lemma sampler_widths_append [simp]: "sampler_widths (xs @ ys) = sampler_widths xs @ sampler_widths ys"
  by (induction xs rule: sampler_widths.induct) simp_all

lemma step_arguments_append [simp]: "step_arguments (xs @ ys) = step_arguments xs @ step_arguments ys"
  by (induction xs rule: step_arguments.induct) simp_all

lemma update_calls_Nil [simp]: "update_calls [] = []"
  by (simp add: update_calls_def)

lemma update_calls_Cons [simp]:
  "update_calls (e # es) = (if is_update_call e then e # update_calls es else update_calls es)"
  by (simp add: update_calls_def)

lemma is_update_call_update_event [simp]: "is_update_call (update_event optimization t)"
  by (simp add: update_event_def)

lemma update_calls_replicate [simp]:
  "update_calls (replicate n (update_event optimization t)) = replicate n (update_event optimization t)"
  by (induction n) simp_all

lemma sampler_widths_update_calls: "sampler_widths (filter is_update_call es) = []"
  by (induction es rule: sampler_widths.induct) simp_all

lemma sampler_widths_replicate [simp]:
  "sampler_widths (replicate n (update_event optimization t)) = []"
  using sampler_widths_update_calls [of "replicate n (update_event optimization t)"]
  by simp

lemma epoch_step_trace:
  assumes "epoch_step permutations X y learning_rate lambd regularization optimization beta1 beta2
             epsilon t mini_batch_size epoch st = Inr st'"
  shows "update_calls (st_trace st')
           = update_calls (st_trace st)
             @ replicate (nat (1 + int (shape1 X) div mini_batch_size)) (update_event optimization t)"
    and "sampler_widths (st_trace st') = sampler_widths (st_trace st) @ [mini_batch_size]"
proof -
  from assms obtain minibatches st1
    where gen: "generate_random_mini_batches (permutations epoch) X y mini_batch_size = Inr minibatches"
      and loop: "for_loop minibatches
             (minibatch_step learning_rate lambd regularization optimization beta1 beta2 epsilon t)
             (st\<lparr>st_cost := 0, st_trace := st_trace st @ [Sampler_called mini_batch_size]\<rparr>) = Inr st1"
      and fin: "st' = st1 \<or> st' = st1\<lparr>st_trace := st_trace st1
                         @ [Printed epoch (st_cost st1 / real (length minibatches))]\<rparr>"
    by (auto simp: epoch_step_def and_then_eq_Inr Let_def split: if_splits)
  have tr: "st_trace st1 = st_trace st @ [Sampler_called mini_batch_size]
              @ replicate (length minibatches) (update_event optimization t)"
    using minibatches_loop_trace [OF loop] by simp
  have n: "length minibatches = nat (1 + int (shape1 X) div mini_batch_size)"
    by (rule generate_random_mini_batches_length [OF gen])
  from fin show "update_calls (st_trace st')
           = update_calls (st_trace st)
             @ replicate (nat (1 + int (shape1 X) div mini_batch_size)) (update_event optimization t)"
    by (auto simp: tr n)
  from fin show "sampler_widths (st_trace st') = sampler_widths (st_trace st) @ [mini_batch_size]"
    by (auto simp: tr)
qed

lemma epochs_loop_trace:
  assumes "for_loop es
             (epoch_step permutations X y learning_rate lambd regularization optimization beta1 beta2
                epsilon t mini_batch_size) st = Inr st'"
  shows "update_calls (st_trace st')
           = update_calls (st_trace st)
             @ replicate (length es * nat (1 + int (shape1 X) div mini_batch_size))
                 (update_event optimization t)
       \<and> sampler_widths (st_trace st') = sampler_widths (st_trace st) @ replicate (length es) mini_batch_size"
  using assms
proof (induction es arbitrary: st)
  case Nil
  then show ?case by simp
next
  case (Cons e es)
  from Cons.prems obtain st1
    where one: "epoch_step permutations X y learning_rate lambd regularization optimization beta1 beta2
                epsilon t mini_batch_size e st = Inr st1"
      and rest: "for_loop es
             (epoch_step permutations X y learning_rate lambd regularization optimization beta1 beta2
                epsilon t mini_batch_size) st1 = Inr st'"
    by (auto split: sum.splits)
  from Cons.IH [OF rest] epoch_step_trace [OF one] show ?case
    by (simp add: replicate_add)
qed

lemma train_nn_model_trace:
  assumes "train_nn_model randn permutations X y hidden_layers epochs learning_rate lambd
             regularization optimization beta1 beta2 epsilon t = Inr (parameters, trace)"
  shows "update_calls trace
           = replicate (nat epochs * (1 + shape1 X div 64)) (update_event optimization t)"
    and "sampler_widths trace = replicate (nat epochs) 64"
proof -
  from assms obtain st0 st'
    where loop: "for_loop [1..epochs]
             (epoch_step permutations X y learning_rate lambd regularization optimization beta1 beta2
                epsilon t 64) st0 = Inr st'"
      and st0: "st_trace st0 = []" and tr: "trace = st_trace st'"
    by (auto simp: train_nn_model_def and_then_eq_Inr Let_def split: prod.splits)
  have n: "nat (1 + int (shape1 X) div 64) = 1 + shape1 X div 64"
    by (simp add: zdiv_int nat_add_distrib)
  from epochs_loop_trace [OF loop]
  show "update_calls trace
           = replicate (nat epochs * (1 + shape1 X div 64)) (update_event optimization t)"
    and "sampler_widths trace = replicate (nat epochs) 64"
    by (simp_all add: st0 tr n)
qed

subsection \<open>A run that returns\<close>

lemma three_sample:
  "generate_random_mini_batches (three_permutations epoch) three_examples_X three_examples_Y 64
     = Inr [(Array 3 [[3, 1, 2]], Array 3 [[1, 1, 0]])]"
  by (simp add: generate_random_mini_batches_def three_permutations_def three_examples_X_def
        three_examples_Y_def index_columns_def reshape_row_def slice_columns_def slice_index_def
        Let_def array_eval eval_nat_numeral upto.simps)

lemma three_forward:
  assumes "len P = 2" "P (K_W (Suc 0)) = Some (Array 1 [[w]])" "P (K_b (Suc 0)) = Some (Array 1 [[b]])"
  shows "\<exists>acts a0 a1 a2. forward_propagation (Array 3 [[3, 1, 2]]) P
           = Inr (acts, Array 3 [[a0, a1, a2]])
       \<and> acts (K_A 0) = Some (Array 3 [[3, 1, 2]])
       \<and> acts (K_A (Suc 0)) = Some (Array 3 [[a0, a1, a2]])"
  using assms
  by (simp add: forward_propagation_def Let_def array_eval eval_nat_numeral)

lemma three_backward:
  assumes "len P = 2" "P (K_W (Suc 0)) = Some (Array 1 [[w]])" "P (K_b (Suc 0)) = Some (Array 1 [[b]])"
    and "acts (K_A 0) = Some (Array 3 [[3, 1, 2]])"
    and "acts (K_A (Suc 0)) = Some (Array 3 [[a0, a1, a2]])"
  shows "\<exists>g gw gb. backward_propagation (Array 3 [[1, 1, 0]]) P acts lambd regularization = Inr g
       \<and> g (K_dW (Suc 0)) = Some (Array 1 [[gw]]) \<and> g (K_db (Suc 0)) = Some (Array 1 [[gb]])"
  using assms
  by (cases "regularization = ''l2''")
     (simp_all add: backward_propagation_def Let_def array_eval eval_nat_numeral)

lemma three_cost:
  assumes "len P = 2" "P (K_W (Suc 0)) = Some (Array 1 [[w]])" "P (K_b (Suc 0)) = Some (Array 1 [[b]])"
  shows "\<exists>c. compute_cost (Array 3 [[a0, a1, a2]]) (Array 3 [[1, 1, 0]]) P lambd regularization
     = Inr c"
  using assms
  by (cases "regularization = ''l2''")
     (simp_all add: compute_cost_def Let_def array_eval eval_nat_numeral)


lemma scalar_array:
  assumes "wf_array a" "shape0 a = 1" "shape1 a = 1"
  shows "\<exists>w. a = Array 1 [[w]]"
proof -
  obtain c rs where a: "a = Array c rs" by (cases a)
  with assms have "c = 1" "length rs = 1" by (simp_all add: shape0_def)
  then obtain r where rs: "rs = [r]" by (cases rs) auto
  with assms a \<open>c = 1\<close> have "length r = 1" by (simp add: wf_array_def)
  then obtain w where "r = [w]" by (cases r) auto
  with a rs \<open>c = 1\<close> show ?thesis by simp
qed

lemma consistent_scalar:
  "consistent [1, 1] P \<longleftrightarrow>
     len P = 2 \<and> (\<exists>w. P (K_W (Suc 0)) = Some (Array 1 [[w]]))
     \<and> (\<exists>b. P (K_b (Suc 0)) = Some (Array 1 [[b]]))"
proof
  assume "consistent [1, 1] P"
  then show "len P = 2 \<and> (\<exists>w. P (K_W (Suc 0)) = Some (Array 1 [[w]]))
     \<and> (\<exists>b. P (K_b (Suc 0)) = Some (Array 1 [[b]]))"
    using scalar_array
    by (auto simp: consistent_def layer_ok_def split: option.splits)
next
  assume "len P = 2 \<and> (\<exists>w. P (K_W (Suc 0)) = Some (Array 1 [[w]]))
     \<and> (\<exists>b. P (K_b (Suc 0)) = Some (Array 1 [[b]]))"
  then show "consistent [1, 1] P"
    by (auto simp: consistent_def layer_ok_def wf_array_def shape0_def)
qed

lemma mirrors_scalar:
  "mirrors [1, 1] d \<longleftrightarrow>
     (\<exists>w. d (K_dW (Suc 0)) = Some (Array 1 [[w]])) \<and> (\<exists>b. d (K_db (Suc 0)) = Some (Array 1 [[b]]))"
proof
  assume "mirrors [1, 1] d"
  then show "(\<exists>w. d (K_dW (Suc 0)) = Some (Array 1 [[w]])) \<and> (\<exists>b. d (K_db (Suc 0)) = Some (Array 1 [[b]]))"
    using scalar_array
    by (auto simp: mirrors_def mirror_ok_def split: option.splits)
next
  assume "(\<exists>w. d (K_dW (Suc 0)) = Some (Array 1 [[w]])) \<and> (\<exists>b. d (K_db (Suc 0)) = Some (Array 1 [[b]]))"
  then show "mirrors [1, 1] d"
    by (auto simp: mirrors_def mirror_ok_def wf_array_def shape0_def)
qed

lemma len_update_existing: "d k = Some a \<Longrightarrow> len (d(k \<mapsto> b)) = len d"
  by (simp add: len_def insert_absorb domI)

lemma three_update_plain:
  assumes "consistent [1, 1] P" "mirrors [1, 1] g"
  shows "\<exists>P'. update_parameters P g learning_rate = Inr P' \<and> consistent [1, 1] P'"
  using assms unfolding consistent_scalar mirrors_scalar
  by (auto simp: update_parameters_def Let_def array_eval eval_nat_numeral len_update_existing)

lemma three_update_adam:
  assumes "consistent [1, 1] P" "mirrors [1, 1] g" "mirrors [1, 1] v" "mirrors [1, 1] s"
  shows "\<exists>P' v' s'. update_parameters_adam P g learning_rate v s t beta1 beta2 epsilon
             = Inr (P', v', s')
       \<and> consistent [1, 1] P' \<and> mirrors [1, 1] v' \<and> mirrors [1, 1] s'"
  using assms unfolding consistent_scalar mirrors_scalar
  by (auto simp: update_parameters_adam_def adam_body_def Let_def array_eval eval_nat_numeral
        len_update_existing)


text \<open>One mini-batch step of the three-example run, for Adam and for the fall-through
  branch.\<close>

lemma three_minibatch_step:
  assumes opt: "optimization = ''adam'' \<or> optimization \<notin> {''rmsprop'', ''adam'', ''momentum''}"
    and P: "consistent [1, 1] (st_parameters st)"
    and v: "optimization = ''adam'' \<longrightarrow> mirrors [1, 1] (st_v st)"
    and s: "optimization = ''adam'' \<longrightarrow> mirrors [1, 1] (st_s st)"
  shows "\<exists>st'. minibatch_step learning_rate lambd regularization optimization beta1 beta2 epsilon t
                 (Array 3 [[3, 1, 2]], Array 3 [[1, 1, 0]]) st = Inr st'
       \<and> consistent [1, 1] (st_parameters st')
       \<and> (optimization = ''adam'' \<longrightarrow> mirrors [1, 1] (st_v st'))
       \<and> (optimization = ''adam'' \<longrightarrow> mirrors [1, 1] (st_s st'))"
proof -
  from P obtain w b where Pw: "len (st_parameters st) = 2"
      "st_parameters st (K_W (Suc 0)) = Some (Array 1 [[w]])"
      "st_parameters st (K_b (Suc 0)) = Some (Array 1 [[b]])"
    unfolding consistent_scalar by blast
  from three_forward [OF Pw] obtain acts a0 a1 a2
    where fwd: "forward_propagation (Array 3 [[3, 1, 2]]) (st_parameters st)
                  = Inr (acts, Array 3 [[a0, a1, a2]])"
      and acts: "acts (K_A 0) = Some (Array 3 [[3, 1, 2]])"
        "acts (K_A (Suc 0)) = Some (Array 3 [[a0, a1, a2]])"
    by blast
  from three_backward [OF Pw acts] obtain g
    where bwd: "backward_propagation (Array 3 [[1, 1, 0]]) (st_parameters st) acts lambd
                  regularization = Inr g"
      and g: "mirrors [1, 1] g"
    unfolding mirrors_scalar by blast
  from three_cost [OF Pw] obtain c
    where cost: "compute_cost (Array 3 [[a0, a1, a2]]) (Array 3 [[1, 1, 0]]) (st_parameters st)
                   lambd regularization = Inr c"
    by blast
  from opt show ?thesis
  proof
    assume adam: "optimization = ''adam''"
    from three_update_adam [OF P g] v s adam obtain P' v' s'
      where "update_parameters_adam (st_parameters st) g learning_rate (st_v st) (st_s st) t
               beta1 beta2 epsilon = Inr (P', v', s')"
        "consistent [1, 1] P'" "mirrors [1, 1] v'" "mirrors [1, 1] s'"
      by blast
    then show ?thesis
      by (simp add: minibatch_step_def fwd bwd cost adam Let_def)
  next
    assume other: "optimization \<notin> {''rmsprop'', ''adam'', ''momentum''}"
    from three_update_plain [OF P g] obtain P'
      where "update_parameters (st_parameters st) g learning_rate = Inr P'" "consistent [1, 1] P'"
      by blast
    with other show ?thesis
      by (simp add: minibatch_step_def fwd bwd cost Let_def)
  qed
qed

lemma three_epoch_step:
  assumes opt: "optimization = ''adam'' \<or> optimization \<notin> {''rmsprop'', ''adam'', ''momentum''}"
    and P: "consistent [1, 1] (st_parameters st)"
    and v: "optimization = ''adam'' \<longrightarrow> mirrors [1, 1] (st_v st)"
    and s: "optimization = ''adam'' \<longrightarrow> mirrors [1, 1] (st_s st)"
  shows "\<exists>st'. epoch_step three_permutations three_examples_X three_examples_Y learning_rate lambd
                 regularization optimization beta1 beta2 epsilon t 64 epoch st = Inr st'
       \<and> consistent [1, 1] (st_parameters st')
       \<and> (optimization = ''adam'' \<longrightarrow> mirrors [1, 1] (st_v st'))
       \<and> (optimization = ''adam'' \<longrightarrow> mirrors [1, 1] (st_s st'))"
proof -
  define st0 where "st0 = st\<lparr>st_cost := 0, st_trace := st_trace st @ [Sampler_called 64]\<rparr>"
  have "consistent [1, 1] (st_parameters st0)"
    "optimization = ''adam'' \<longrightarrow> mirrors [1, 1] (st_v st0)"
    "optimization = ''adam'' \<longrightarrow> mirrors [1, 1] (st_s st0)"
    using P v s by (simp_all add: st0_def)
  from three_minibatch_step [OF opt this] obtain st1
    where "minibatch_step learning_rate lambd regularization optimization beta1 beta2 epsilon t
                 (Array 3 [[3, 1, 2]], Array 3 [[1, 1, 0]]) st0 = Inr st1"
      "consistent [1, 1] (st_parameters st1)"
      "optimization = ''adam'' \<longrightarrow> mirrors [1, 1] (st_v st1)"
      "optimization = ''adam'' \<longrightarrow> mirrors [1, 1] (st_s st1)"
    by blast
  then show ?thesis
    by (simp add: epoch_step_def three_sample Let_def st0_def)
qed

lemma three_epochs:
  assumes opt: "optimization = ''adam'' \<or> optimization \<notin> {''rmsprop'', ''adam'', ''momentum''}"
    and P: "consistent [1, 1] (st_parameters st)"
    and v: "optimization = ''adam'' \<longrightarrow> mirrors [1, 1] (st_v st)"
    and s: "optimization = ''adam'' \<longrightarrow> mirrors [1, 1] (st_s st)"
  shows "\<exists>st'. for_loop es
                 (epoch_step three_permutations three_examples_X three_examples_Y learning_rate lambd
                    regularization optimization beta1 beta2 epsilon t 64) st = Inr st'"
  using P v s
proof (induction es arbitrary: st)
  case Nil
  then show ?case by simp
next
  case (Cons e es)
  from three_epoch_step [OF opt Cons.prems] obtain st1
    where "epoch_step three_permutations three_examples_X three_examples_Y learning_rate lambd
                 regularization optimization beta1 beta2 epsilon t 64 e st = Inr st1"
      "consistent [1, 1] (st_parameters st1)"
      "optimization = ''adam'' \<longrightarrow> mirrors [1, 1] (st_v st1)"
      "optimization = ''adam'' \<longrightarrow> mirrors [1, 1] (st_s st1)"
    by blast
  with Cons.IH [of st1] show ?case
    by simp
qed

lemma three_create_layers:
  "\<exists>P. create_layers randn [1, 1] = Inr P \<and> consistent [1, 1] P"
proof -
  have "\<And>i. Suc i < length [1::int, 1] \<Longrightarrow> 0 < [1::int, 1] ! i \<and> 0 \<le> [1::int, 1] ! Suc i"
    by simp
  from create_layers_ok [of "[1, 1]" randn, OF this]
  obtain P where "create_layers randn [1, 1] = Inr P"
    "dom P = K_W ` {1..<length [1::int, 1]} \<union> K_b ` {1..<length [1::int, 1]}"
    "\<forall>idx \<in> {1..<length [1::int, 1]}. layer_ok (map nat [1, 1]) P idx"
    by blast
  then show ?thesis
    using consistent_from_dom [of P "map nat [1, 1]"] by auto
qed

lemma three_initialize_adam:
  assumes "consistent [1, 1] P"
  shows "\<exists>v s. initialize_adam_params P = Inr (v, s) \<and> mirrors [1, 1] v \<and> mirrors [1, 1] s"
  using assms unfolding consistent_scalar mirrors_scalar
  by (auto simp: initialize_adam_params_def array_eval eval_nat_numeral)

text \<open>The run on the three examples returns, for Adam and for every name that falls
  through to plain gradient descent.\<close>

lemma three_examples_run:
  assumes opt: "optimization = ''adam'' \<or> optimization \<notin> {''rmsprop'', ''adam'', ''momentum''}"
  shows "\<exists>parameters trace.
           train_nn_model randn three_permutations three_examples_X three_examples_Y [] epochs
             learning_rate lambd regularization optimization beta1 beta2 epsilon t
           = Inr (parameters, trace)"
proof -
  have layers: "[int (shape0 three_examples_X)] @ [] @ [1] = [1, 1]"
    by (simp add: three_examples_X_def shape0_def)
  obtain P where P: "create_layers randn [1, 1] = Inr P" "consistent [1, 1] P"
    using three_create_layers by blast
  obtain v s where init: "(if optimization = ''rmsprop'' then
           and_then (initialize_rmsprop_params P) (\<lambda>s. Inr (Map.empty, s))
         else if optimization = ''adam'' then initialize_adam_params P
         else if optimization = ''momentum'' then
           and_then (initialize_momentum_params P) (\<lambda>v. Inr (v, Map.empty))
         else Inr (Map.empty, Map.empty)) = Inr (v, s)"
      and vs: "optimization = ''adam'' \<longrightarrow> mirrors [1, 1] v"
        "optimization = ''adam'' \<longrightarrow> mirrors [1, 1] s"
    using opt three_initialize_adam [OF P(2)] by auto
  define st0 where "st0 = \<lparr>st_parameters = P, st_v = v, st_s = s, st_cost = 0, st_trace = []\<rparr>"
  have "consistent [1, 1] (st_parameters st0)"
    "optimization = ''adam'' \<longrightarrow> mirrors [1, 1] (st_v st0)"
    "optimization = ''adam'' \<longrightarrow> mirrors [1, 1] (st_s st0)"
    using P vs by (simp_all add: st0_def)
  from three_epochs [OF opt this] obtain st'
    where "for_loop [1..epochs]
                 (epoch_step three_permutations three_examples_X three_examples_Y learning_rate lambd
                    regularization optimization beta1 beta2 epsilon t 64) st0 = Inr st'"
    by blast
  then show ?thesis
    unfolding train_nn_model_def layers Let_def P(1) and_then_Inr init prod.case st0_def
    by simp
qed

subsection \<open>The step counter\<close>






subsection \<open>The batch size\<close>

text \<open>
  Claim C6, as the code has it. \<^verbatim>\<open>train_nn_model\<close> has no \<open>mini_batch_size\<close>
  parameter, and in every training run that returns the sampler is called once per epoch,
  each time with the batch size 64 that the function fixes itself.
\<close>

theorem sampler_width_is_fixed:
  "''mini_batch_size'' \<notin> set train_nn_model_keywords
   \<and> (train_nn_model randn permutations X y hidden_layers epochs learning_rate lambd
             regularization optimization beta1 beta2 epsilon t = Inr (parameters, trace)
        \<longrightarrow> sampler_widths trace = replicate (nat epochs) 64)"
  using train_nn_model_trace(2)
  by (auto simp: train_nn_model_keywords_def)

theorem sampler_width_is_fixed_witness:
  "\<exists>parameters trace.
     train_nn_model zero_randn three_permutations three_examples_X three_examples_Y [] 2
       default_learning_rate default_lambd default_regularization default_optimization
       default_beta1 default_beta2 default_epsilon default_t = Inr (parameters, trace)
   \<and> sampler_widths trace = [64, 64]"
proof -
  obtain parameters trace
    where run: "train_nn_model zero_randn three_permutations three_examples_X three_examples_Y [] 2
        default_learning_rate default_lambd default_regularization default_optimization
        default_beta1 default_beta2 default_epsilon default_t = Inr (parameters, trace)"
    using three_examples_run [of default_optimization zero_randn 2 default_learning_rate
        default_lambd default_regularization default_beta1 default_beta2 default_epsilon default_t]
    by (auto simp: default_optimization_def)
  with sampler_width_is_fixed [of zero_randn three_permutations three_examples_X
      three_examples_Y "[]" 2 default_learning_rate default_lambd default_regularization
      default_optimization default_beta1 default_beta2 default_epsilon default_t parameters trace]
  have "sampler_widths trace = replicate (nat 2) 64"
    by blast
  then have "sampler_widths trace = [64, 64]"
    by (simp add: eval_nat_numeral)
  with run show ?thesis
    by blast
qed

text \<open>
  Claim C6 as stated fails: \<open>mini_batch_size\<close> is not a keyword of the entry point; on
  three examples the run calls the sampler with 64 and makes one update, where a batch
  size of 2 would give two chunks.
\<close>

theorem sampler_ignores_requested_width:
  "''mini_batch_size'' \<notin> set train_nn_model_keywords
   \<and> map_sum id (sampler_widths \<circ> snd)
       (train_nn_model zero_randn three_permutations three_examples_X three_examples_Y [] 1
          default_learning_rate default_lambd default_regularization default_optimization
          default_beta1 default_beta2 default_epsilon default_t) = Inr [64]
   \<and> map_sum id (length \<circ> update_calls \<circ> snd)
       (train_nn_model zero_randn three_permutations three_examples_X three_examples_Y [] 1
          default_learning_rate default_lambd default_regularization default_optimization
          default_beta1 default_beta2 default_epsilon default_t) = Inr 1
   \<and> map_sum id length
       (generate_random_mini_batches (three_permutations 1) three_examples_X three_examples_Y 2)
       = Inr 2"
proof -
  obtain parameters trace
    where run: "train_nn_model zero_randn three_permutations three_examples_X three_examples_Y [] 1
        default_learning_rate default_lambd default_regularization default_optimization
        default_beta1 default_beta2 default_epsilon default_t = Inr (parameters, trace)"
    using three_examples_run [of default_optimization zero_randn 1 default_learning_rate
        default_lambd default_regularization default_beta1 default_beta2 default_epsilon default_t]
    by (auto simp: default_optimization_def)
  have m: "shape1 three_examples_X = 3"
    by (simp add: three_examples_X_def)
  have widths: "sampler_widths trace = [64]"
    using train_nn_model_trace(2) [OF run] by simp
  have "update_calls trace
      = replicate (nat 1 * (1 + shape1 three_examples_X div 64))
          (update_event default_optimization default_t)"
    by (rule train_nn_model_trace(1) [OF run])
  then have updates: "length (update_calls trace) = 1"
    by (simp add: m)
  have perm: "mset (three_permutations 1) = mset [0..<shape1 three_examples_X]"
    by (simp add: three_permutations_def m upt_rec eval_nat_numeral)
  have Y: "shape0 three_examples_Y = 1" "shape1 three_examples_Y = shape1 three_examples_X"
    by (simp_all add: three_examples_Y_def three_examples_X_def shape0_def)
  have "(0::nat) < 2"
    by simp
  from generate_random_mini_batches_eq [OF perm Y this]
  have requested: "map_sum id length
       (generate_random_mini_batches (three_permutations 1) three_examples_X three_examples_Y 2)
       = Inr 2"
    by (simp add: m)
  have "''mini_batch_size'' \<notin> set train_nn_model_keywords"
    by (simp add: train_nn_model_keywords_def)
  with widths updates requested show ?thesis
    by (simp add: run)
qed

subsection \<open>The optimizer name\<close>






end
